theory Spec2Isabelle
  imports Main
begin

section \<open>JavaScript string helpers\<close>

text \<open>
  Strings are byte lists. \<open>toLowerCase\<close> is modelled on the ASCII letters, \<open>includes\<close>
  is substring containment, \<open>decimal\<close> is the decimal rendering used by template
  literals, \<open>truthy\<close> is the truthiness of a possibly undefined string (an environment
  variable or an optional property): undefined and the empty string are falsy.
\<close>

definition toLowerChar :: "char \<Rightarrow> char" where
  "toLowerChar c =
     (case map_of (zip ''ABCDEFGHIJKLMNOPQRSTUVWXYZ'' ''abcdefghijklmnopqrstuvwxyz'') c of
        Some l \<Rightarrow> l
      | None \<Rightarrow> c)"

definition toLowerCase :: "string \<Rightarrow> string" where
  "toLowerCase s = map toLowerChar s"

fun startsWith :: "string \<Rightarrow> string \<Rightarrow> bool" where
  "startsWith s [] = True"
| "startsWith [] (p # ps) = False"
| "startsWith (c # cs) (p # ps) = (c = p \<and> startsWith cs ps)"

fun includesStr :: "string \<Rightarrow> string \<Rightarrow> bool" where
  "includesStr [] sub = (sub = [])"
| "includesStr (c # cs) sub = (startsWith (c # cs) sub \<or> includesStr cs sub)"

definition endsWith :: "string \<Rightarrow> string \<Rightarrow> bool" where
  "endsWith s suf = (length suf \<le> length s \<and> drop (length s - length suf) s = suf)"

definition digit :: "nat \<Rightarrow> char" where
  "digit d = ''0123456789'' ! d"

fun decimal :: "nat \<Rightarrow> string" where
  "decimal n = (if n < 10 then [digit n] else decimal (n div 10) @ [digit (n mod 10)])"

declare decimal.simps [simp del]

definition truthy :: "string option \<Rightarrow> bool" where
  "truthy v = (case v of None \<Rightarrow> False | Some s \<Rightarrow> s \<noteq> [])"

section \<open>Exceptions and the invocation context\<close>

text \<open>
  \<open>Error\<close> and \<open>TypeError\<close> are the JavaScript errors; \<open>RestError\<close> is an error of
  the storage library that carries a \<open>statusCode\<close>.
\<close>

datatype js_error = Error string | TypeError string | RestError nat string

fun error_message :: "js_error \<Rightarrow> string" where
  "error_message (Error m) = m"
| "error_message (TypeError m) = m"
| "error_message (RestError code m) = m"

fun statusCode :: "js_error \<Rightarrow> nat option" where
  "statusCode (Error m) = None"
| "statusCode (TypeError m) = None"
| "statusCode (RestError code m) = Some code"

text \<open>
  The handlers log through the \<open>context\<close> argument. \<open>context.log(...)\<close> is a
  function in every version of the programming model. \<open>context.log.error\<close> and
  \<open>context.log.warn\<close> exist on the context of the older model only: the
  \<open>InvocationContext\<close> that \<open>app.http\<close> handlers receive has \<open>log\<close> as a plain
  method, so \<open>context.log.error\<close> is undefined there and calling it throws a
  \<open>TypeError\<close>. The context records which of the two are callable.
\<close>

record invocation_context =
  log_error_callable :: bool
  log_warn_callable :: bool

definition log_error_result :: "invocation_context \<Rightarrow> js_error + unit" where
  "log_error_result ctx =
     (if log_error_callable ctx then Inr ()
      else Inl (TypeError ''context.log.error is not a function''))"

definition log_warn_result :: "invocation_context \<Rightarrow> js_error + unit" where
  "log_warn_result ctx =
     (if log_warn_callable ctx then Inr ()
      else Inl (TypeError ''context.log.warn is not a function''))"

text \<open>The value of a block that logs and then returns \<open>x\<close>.\<close>

fun after_log :: "js_error + unit \<Rightarrow> 'a \<Rightarrow> js_error + 'a" where
  "after_log (Inl e) x = Inl e"
| "after_log (Inr u) x = Inr x"

section \<open>Stateful steps\<close>

text \<open>
  An asynchronous function of the source that reads or writes process state is a step:
  from a state it produces a new state and either the exception it throws (\<open>Inl\<close>) or
  the value it returns (\<open>Inr\<close>). \<open>js_bind\<close> is sequencing with \<open>await\<close>, \<open>js_catch\<close> is
  \<open>try { m } catch (error) { h(error) }\<close>, and \<open>js_attempt\<close> hands the outcome of a
  \<open>try\<close> block to the code that follows it, for the blocks whose \<open>catch\<close> returns from
  the enclosing function.
\<close>

type_synonym ('s, 'a) step = "'s \<Rightarrow> (js_error + 'a) \<times> 's"

definition js_return :: "'a \<Rightarrow> ('s, 'a) step" where
  "js_return x s = (Inr x, s)"

definition js_throw :: "js_error \<Rightarrow> ('s, 'a) step" where
  "js_throw e s = (Inl e, s)"

fun js_continue :: "('a \<Rightarrow> ('s, 'b) step) \<Rightarrow> (js_error + 'a) \<times> 's \<Rightarrow> (js_error + 'b) \<times> 's" where
  "js_continue f (Inl e, s) = (Inl e, s)"
| "js_continue f (Inr x, s) = f x s"

definition js_bind :: "('s, 'a) step \<Rightarrow> ('a \<Rightarrow> ('s, 'b) step) \<Rightarrow> ('s, 'b) step" where
  "js_bind m f s = js_continue f (m s)"

fun js_handle :: "(js_error \<Rightarrow> ('s, 'a) step) \<Rightarrow> (js_error + 'a) \<times> 's \<Rightarrow> (js_error + 'a) \<times> 's" where
  "js_handle h (Inl e, s) = h e s"
| "js_handle h (Inr x, s) = (Inr x, s)"

definition js_catch :: "('s, 'a) step \<Rightarrow> (js_error \<Rightarrow> ('s, 'a) step) \<Rightarrow> ('s, 'a) step" where
  "js_catch m h s = js_handle h (m s)"

fun js_outcome :: "(js_error + 'a) \<times> 's \<Rightarrow> (js_error + (js_error + 'a)) \<times> 's" where
  "js_outcome (r, s) = (Inr r, s)"

definition js_attempt :: "('s, 'a) step \<Rightarrow> ('s, js_error + 'a) step" where
  "js_attempt m s = js_outcome (m s)"

text \<open>Awaiting a promise that has settled: its rejection is thrown, its value returned.\<close>

fun js_settle :: "js_error + 'a \<Rightarrow> ('s, 'a) step" where
  "js_settle (Inl e) = js_throw e"
| "js_settle (Inr x) = js_return x"

text \<open>The calls \<open>context.log.error(...)\<close> and \<open>context.log.warn(...)\<close> as steps.\<close>

definition log_error :: "invocation_context \<Rightarrow> ('s, unit) step" where
  "log_error ctx s = (log_error_result ctx, s)"

definition log_warn :: "invocation_context \<Rightarrow> ('s, unit) step" where
  "log_warn ctx s = (log_warn_result ctx, s)"

section \<open>External Tag Sync: \<open>syncTagsToKit\<close> of survey-submission.js\<close>

type_synonym time = nat

record kit_request =
  url :: string
  httpMethod :: string
  authorization :: string
  payload_email :: "string option"
  payload_tags :: "string list"
  payload_form_id :: "string option"
  timeout_ms :: int

text \<open>
  What the \<open>fetch\<close> call does: the promise rejects (network error, timeout) with a
  message, or a response arrives with its HTTP status, its body text, and whether that
  body parses as JSON (\<open>response.json()\<close> throws otherwise).
\<close>

datatype fetch_outcome = Rejects string | Responds nat string bool

definition response_ok :: "nat \<Rightarrow> bool" where
  "response_ok st = (200 \<le> st \<and> st \<le> 299)"

record kit_result =
  ks_status :: string
  ks_message :: string
  ks_tagssynced :: "nat option"
  ks_formId :: "string option"
  ks_kitResponse :: "string option"
  ks_error :: "string option"

record kit_env =
  KIT_API_KEY :: "string option"
  KIT_FORM_ID :: "string option"
  fetch :: "kit_request \<Rightarrow> fetch_outcome"

definition kit_plain :: "string \<Rightarrow> string \<Rightarrow> kit_result" where
  "kit_plain st msg =
     \<lparr>ks_status = st, ks_message = msg, ks_tagssynced = None, ks_formId = None,
      ks_kitResponse = None, ks_error = None\<rparr>"

definition validKitTags :: "string list \<Rightarrow> string list" where
  "validKitTags selectedTags = filter (\<lambda>tag. \<not> includesStr tag ''_other'') selectedTags"

definition kitPayload :: "'a kit_env_scheme \<Rightarrow> string \<Rightarrow> string list \<Rightarrow> kit_request" where
  "kitPayload env email selectedTags =
     \<lparr>url = ''https://api.kit.com/subscribers'', httpMethod = ''PUT'',
      authorization = ''Bearer '' @ the (KIT_API_KEY env),
      payload_email = Some email,
      payload_tags = validKitTags selectedTags,
      payload_form_id = (if truthy (KIT_FORM_ID env) then KIT_FORM_ID env else None),
      timeout_ms = 10000\<rparr>"

text \<open>
  The result built from what \<open>fetch\<close> did. A status that is not 2xx is logged with
  \<open>context.log.error\<close> inside the \<open>try\<close>; every exception raised inside the \<open>try\<close>
  (a rejected request, a body that is not JSON, the logging call itself) ends in the
  \<open>catch\<close>, which logs with \<open>context.log.error\<close> before it returns. Where that call
  throws, the exception leaves the function.
\<close>

definition kit_outcome ::
  "invocation_context \<Rightarrow> 'a kit_env_scheme \<Rightarrow> string list \<Rightarrow> fetch_outcome \<Rightarrow> js_error + kit_result" where
  "kit_outcome ctx env tags out =
     (case out of
        Responds st txt json_ok \<Rightarrow>
          if response_ok st then
            (if json_ok then
               Inr \<lparr>ks_status = ''success'', ks_message = ''Tags synced successfully to Kit.com'',
                    ks_tagssynced = Some (length tags),
                    ks_formId = KIT_FORM_ID env, ks_kitResponse = Some txt, ks_error = None\<rparr>
             else
               after_log (log_error_result ctx)
                 ((kit_plain ''failed'' ''Failed to connect to Kit.com API'')
                    \<lparr>ks_error := Some ''invalid json response body''\<rparr>))
          else
            after_log (log_error_result ctx)
              ((kit_plain ''failed'' (''Kit.com API error: '' @ decimal st))
                 \<lparr>ks_error := Some txt\<rparr>)
      | Rejects msg \<Rightarrow>
          after_log (log_error_result ctx)
            ((kit_plain ''failed'' ''Failed to connect to Kit.com API'')\<lparr>ks_error := Some msg\<rparr>))"

text \<open>
  The outcome of \<open>syncTagsToKit\<close> (the exception it throws or the result it
  returns) together with the list of network requests it sent (none or one). A missing
  credential is logged with \<open>context.log.warn\<close>, outside the \<open>try\<close>.
\<close>

definition syncTagsToKit ::
  "invocation_context \<Rightarrow> 'a kit_env_scheme \<Rightarrow> string \<Rightarrow> string list
     \<Rightarrow> (js_error + kit_result) \<times> kit_request list" where
  "syncTagsToKit ctx env email selectedTags =
     (if \<not> truthy (KIT_API_KEY env) then
        (after_log (log_warn_result ctx)
           (kit_plain ''skipped'' ''Kit.com API key not configured''), [])
      else if length (validKitTags selectedTags) = 0 then
        (Inr (kit_plain ''skipped'' ''No valid tags to sync''), [])
      else
        (kit_outcome ctx env (validKitTags selectedTags)
           (fetch env (kitPayload env email selectedTags)),
         [kitPayload env email selectedTags]))"

section \<open>The Kit.com service module: \<open>syncTagsToKit(data)\<close>\<close>

text \<open>
  The second implementation of the tag sync lives in the service module next to
  \<open>getKitSubscriber\<close> and \<open>removeKitTags\<close>. It takes one argument and destructures
  \<open>email\<close> and \<open>tags\<close> from it; a property the argument does not have is undefined
  (\<open>None\<close>). A missing credential is thrown as an \<open>Error\<close>, and \<open>tags.map\<close> on an
  undefined \<open>tags\<close> is a \<open>TypeError\<close>; both lie outside the function's \<open>try\<close>.
  The module logs through \<open>console\<close>.
\<close>

record kit_data =
  d_email :: "string option"
  d_tags :: "string list option"

record kitApi_result =
  ka_success :: bool
  ka_status :: "nat option"
  ka_data :: "string option"
  ka_error :: "string option"

definition kitApi_payload :: "'a kit_env_scheme \<Rightarrow> string option \<Rightarrow> string list \<Rightarrow> kit_request" where
  "kitApi_payload env email tags =
     \<lparr>url = ''https://api.kit.com/v3/subscribers'', httpMethod = ''PUT'',
      authorization = ''Bearer '' @ the (KIT_API_KEY env),
      payload_email = email,
      payload_tags = tags,
      payload_form_id = None,
      timeout_ms = 30000\<rparr>"

definition kitApi_outcome :: "fetch_outcome \<Rightarrow> kitApi_result" where
  "kitApi_outcome out =
     (case out of
        Responds st body json_ok \<Rightarrow>
          if response_ok st then
            \<lparr>ka_success = True, ka_status = Some st, ka_data = Some body, ka_error = None\<rparr>
          else
            \<lparr>ka_success = False, ka_status = Some st, ka_data = None, ka_error = Some body\<rparr>
      | Rejects msg \<Rightarrow>
          \<lparr>ka_success = False, ka_status = None, ka_data = None, ka_error = Some msg\<rparr>)"

definition kitApi_syncTagsToKit ::
  "'a kit_env_scheme \<Rightarrow> kit_data \<Rightarrow> (js_error + kitApi_result) \<times> kit_request list" where
  "kitApi_syncTagsToKit env dat =
     (if \<not> truthy (KIT_API_KEY env) then
        (Inl (Error ''KIT_API_KEY environment variable is not set''), [])
      else
        (case d_tags dat of
           None \<Rightarrow> (Inl (TypeError ''Cannot read properties of undefined (reading map)''), [])
         | Some tags \<Rightarrow>
             (Inr (kitApi_outcome (fetch env (kitApi_payload env (d_email dat) tags))),
              [kitApi_payload env (d_email dat) tags])))"

section \<open>The submission and the two tables of survey-submission.js\<close>

text \<open>
  The value that \<open>surveySubmissionSchema.validate\<close> returns for an accepted body. An
  optional property is an \<open>option\<close>; the free-text properties also allow the empty
  string and \<open>null\<close>.
\<close>

datatype optional_text = Absent | Null | Text string

record survey_answers =
  setting :: string
  profession :: string
  populations :: "string list"
  interests :: "string list"
  frequency :: string
  modalities :: "string list"
  profession_other :: optional_text
  modality_other :: optional_text

record custom_responses =
  role_other :: optional_text
  mod_other :: optional_text

record submission =
  name :: string
  email :: string
  surveyData :: survey_answers
  recommendations :: "string list option"
  selectedTags :: "string list"
  customResponses :: "custom_responses option"
  timestamp :: "string option"
  completed :: "bool option"

text \<open>
  An entity of the survey-responses table. The source stores \<open>surveyData\<close>,
  \<open>recommendations\<close>, \<open>selectedTags\<close> and \<open>customResponses\<close> through
  \<open>JSON.stringify\<close>; the model keeps the values themselves.
\<close>

record response_entity =
  r_partitionKey :: string
  r_rowKey :: string
  r_therapistId :: string
  r_email :: string
  r_name :: string
  r_surveyData :: survey_answers
  r_recommendations :: "string list"
  r_selectedTags :: "string list"
  r_customResponses :: custom_responses
  r_completedAt :: time
  r_completed :: bool
  r_kitSyncStatus :: string
  r_kitSyncedAt :: "time option"

record tag_entity =
  t_partitionKey :: string
  t_rowKey :: string
  t_therapistId :: string
  t_email :: string
  t_tagName :: string
  t_tagSource :: string
  t_createdAt :: time

datatype table_name = SurveyResponses | UserTags

text \<open>Every call that leaves the process: table creation, entity writes, the HTTP request.\<close>

datatype event =
    CreateTable table_name
  | CreateEntity string string
  | UpsertEntity string string
  | UpdateEntity string string
  | Fetch kit_request

fun is_write :: "event \<Rightarrow> bool" where
  "is_write (CreateEntity pk rk) = True"
| "is_write (UpsertEntity pk rk) = True"
| "is_write (UpdateEntity pk rk) = True"
| "is_write (CreateTable t) = False"
| "is_write (Fetch rq) = False"

fun is_fetch :: "event \<Rightarrow> bool" where
  "is_fetch (Fetch rq) = True"
| "is_fetch (CreateTable t) = False"
| "is_fetch (CreateEntity pk rk) = False"
| "is_fetch (UpsertEntity pk rk) = False"
| "is_fetch (UpdateEntity pk rk) = False"

text \<open>
  The process state: whether the module-level table clients are set, the contents of the
  two tables (rows in insertion order), how often \<open>generateId\<close> has run, and the calls
  made so far.
\<close>

record state =
  clientsInitialized :: bool
  surveyResponsesTable :: "response_entity list"
  userTagsTable :: "tag_entity list"
  idCount :: nat
  calls :: "event list"

text \<open>
  What the world outside the process does during one request. A storage call that throws
  is given by the error it throws. \<open>createEntity_etag\<close> is the \<open>etag\<close> header of a created
  entity, \<open>generateId\<close> the identifier produced by the n-th call of \<open>generateId()\<close>,
  \<open>now\<close> and \<open>tag_now\<close> the values of \<open>new Date()\<close> in the handler and in the per-tag
  closure of \<open>saveUserTags\<close>.
\<close>

record env = kit_env +
  AZURE_STORAGE_CONNECTION_STRING :: "string option"
  createTable_error :: "table_name \<Rightarrow> js_error option"
  createEntity_error :: "js_error option"
  createEntity_etag :: string
  upsertEntity_error :: "string \<Rightarrow> js_error option"
  updateEntity_error :: "js_error option"
  generateId :: "nat \<Rightarrow> string"
  parseDate :: "string \<Rightarrow> time"
  now :: time
  tag_now :: "string \<Rightarrow> time"

definition record_call :: "event \<Rightarrow> state \<Rightarrow> state" where
  "record_call e s = s\<lparr>calls := calls s @ [e]\<rparr>"

subsection \<open>The table client\<close>

text \<open>
  The storage library is not part of the repository. Its behaviour: a row is identified
  by (partitionKey, rowKey); \<open>createEntity\<close> inserts a new row, fails with status 409 on
  an existing key, and resolves to the headers of the service's response (\<open>etag\<close> and
  the like), an object without a \<open>rowKey\<close> property; \<open>upsertEntity\<close> in mode Replace
  replaces the row with that key or inserts it; \<open>updateEntity\<close> in mode Merge overwrites
  the given properties of the existing row and fails with status 404 when there is
  none.
\<close>

definition response_key :: "response_entity \<Rightarrow> string \<times> string" where
  "response_key r = (r_partitionKey r, r_rowKey r)"

definition tag_key :: "tag_entity \<Rightarrow> string \<times> string" where
  "tag_key t = (t_partitionKey t, t_rowKey t)"

definition upsertEntity :: "tag_entity \<Rightarrow> tag_entity list \<Rightarrow> tag_entity list" where
  "upsertEntity e tbl =
     (if List.member (map tag_key tbl) (tag_key e)
      then map (\<lambda>x. if tag_key x = tag_key e then e else x) tbl
      else tbl @ [e])"

definition mergeSyncStatus ::
  "string \<times> string \<Rightarrow> string \<Rightarrow> time \<Rightarrow> response_entity list \<Rightarrow> response_entity list" where
  "mergeSyncStatus k st at tbl =
     map (\<lambda>r. if response_key r = k
               then r\<lparr>r_kitSyncStatus := st, r_kitSyncedAt := Some at\<rparr> else r) tbl"

record create_headers =
  etag :: string

text \<open>The \<open>rowKey\<close> property read from the value \<open>createEntity\<close> resolved to: undefined.\<close>

definition rowKey_property :: "create_headers \<Rightarrow> string option" where
  "rowKey_property surveyResponseResult = None"

text \<open>
  The calls to the storage library. Each one is recorded; it throws the error the
  environment gives it, or acts on the table as described above.
\<close>

definition createTable_call :: "env \<Rightarrow> table_name \<Rightarrow> (state, unit) step" where
  "createTable_call env t s =
     (case createTable_error env t of
        Some error \<Rightarrow> (Inl error, record_call (CreateTable t) s)
      | None \<Rightarrow> (Inr (), record_call (CreateTable t) s))"

definition createEntity_call :: "env \<Rightarrow> response_entity \<Rightarrow> (state, create_headers) step" where
  "createEntity_call env entity s =
     (let s1 = record_call (CreateEntity (r_partitionKey entity) (r_rowKey entity)) s in
      case createEntity_error env of
        Some error \<Rightarrow> (Inl error, s1)
      | None \<Rightarrow>
          if List.member (map response_key (surveyResponsesTable s1)) (response_key entity)
          then (Inl (RestError 409 ''EntityAlreadyExists''), s1)
          else (Inr \<lparr>etag = createEntity_etag env\<rparr>,
                s1\<lparr>surveyResponsesTable := surveyResponsesTable s1 @ [entity]\<rparr>))"

definition upsertEntity_call :: "env \<Rightarrow> tag_entity \<Rightarrow> (state, unit) step" where
  "upsertEntity_call env entity s =
     (let s1 = record_call (UpsertEntity (t_partitionKey entity) (t_rowKey entity)) s in
      case upsertEntity_error env (t_rowKey entity) of
        Some error \<Rightarrow> (Inl error, s1)
      | None \<Rightarrow> (Inr (), s1\<lparr>userTagsTable := upsertEntity entity (userTagsTable s1)\<rparr>))"

definition updateEntity_call ::
  "env \<Rightarrow> string \<times> string \<Rightarrow> string \<Rightarrow> time \<Rightarrow> (state, unit) step" where
  "updateEntity_call env k syncStatus at s =
     (let s1 = record_call (UpdateEntity (fst k) (snd k)) s in
      case updateEntity_error env of
        Some error \<Rightarrow> (Inl error, s1)
      | None \<Rightarrow>
          if \<not> List.member (map response_key (surveyResponsesTable s1)) k
          then (Inl (RestError 404 ''ResourceNotFound''), s1)
          else (Inr (), s1\<lparr>surveyResponsesTable :=
                             mergeSyncStatus k syncStatus at (surveyResponsesTable s1)\<rparr>))"

subsection \<open>Table initialisation\<close>

definition initializeTableClients :: "env \<Rightarrow> (state, unit) step" where
  "initializeTableClients env s =
     (if \<not> truthy (AZURE_STORAGE_CONNECTION_STRING env) then
        (Inl (Error ''AZURE_STORAGE_CONNECTION_STRING environment variable is required''), s)
      else (Inr (), s\<lparr>clientsInitialized := True\<rparr>))"

text \<open>\<open>createTable\<close> inside its \<open>try\<close>: an error is rethrown unless its status code is 409.\<close>

definition createTable :: "env \<Rightarrow> table_name \<Rightarrow> (state, unit) step" where
  "createTable env t =
     js_catch (createTable_call env t)
       (\<lambda>error. if statusCode error \<noteq> Some 409 then js_throw error else js_return ())"

definition ensureTablesExist :: "env \<Rightarrow> (state, unit) step" where
  "ensureTablesExist env =
     js_bind (createTable env SurveyResponses) (\<lambda>u. createTable env UserTags)"

subsection \<open>\<open>generateId\<close>, \<open>updateKitSyncStatus\<close>, \<open>saveSurveyResponse\<close>, \<open>saveUserTags\<close>\<close>

definition generateId_step :: "env \<Rightarrow> (state, string) step" where
  "generateId_step env s = (Inr (generateId env (idCount s)), s\<lparr>idCount := Suc (idCount s)\<rparr>)"

text \<open>
  \<open>updateKitSyncStatus\<close> catches whatever \<open>updateEntity\<close> throws, logs it with
  \<open>context.log.error\<close> and does not rethrow ("this is just status tracking").
\<close>

definition updateKitSyncStatus ::
  "invocation_context \<Rightarrow> env \<Rightarrow> string \<Rightarrow> string \<Rightarrow> string \<Rightarrow> (state, unit) step" where
  "updateKitSyncStatus ctx env em rowKey syncStatus =
     js_catch (updateEntity_call env (toLowerCase em, rowKey) syncStatus (now env))
       (\<lambda>error. log_error ctx)"

definition no_custom :: custom_responses where
  "no_custom = \<lparr>role_other = Absent, mod_other = Absent\<rparr>"

text \<open>
  The handler's destructuring defaults: \<open>recommendations = []\<close>,
  \<open>customResponses = {}\<close>, \<open>completed = true\<close>.
\<close>

definition recommendations_of :: "submission \<Rightarrow> string list" where
  "recommendations_of v = (case recommendations v of None \<Rightarrow> [] | Some rs \<Rightarrow> rs)"

definition customResponses_of :: "submission \<Rightarrow> custom_responses" where
  "customResponses_of v = (case customResponses v of None \<Rightarrow> no_custom | Some c \<Rightarrow> c)"

definition completed_of :: "submission \<Rightarrow> bool" where
  "completed_of v = (case completed v of None \<Rightarrow> True | Some b \<Rightarrow> b)"

definition response_entity_of :: "env \<Rightarrow> submission \<Rightarrow> string \<Rightarrow> response_entity" where
  "response_entity_of env v rowKey =
     \<lparr>r_partitionKey = toLowerCase (email v),
      r_rowKey = rowKey,
      r_therapistId = [],
      r_email = toLowerCase (email v),
      r_name = name v,
      r_surveyData = surveyData v,
      r_recommendations = recommendations_of v,
      r_selectedTags = selectedTags v,
      r_customResponses = customResponses_of v,
      r_completedAt = (if truthy (timestamp v) then parseDate env (the (timestamp v)) else now env),
      r_completed = (completed_of v \<or> True),
      r_kitSyncStatus = ''pending'',
      r_kitSyncedAt = None\<rparr>"

text \<open>
  \<open>saveSurveyResponse\<close> logs and rethrows what \<open>createEntity\<close> throws; on success it
  returns the value \<open>createEntity\<close> resolved to.
\<close>

definition saveSurveyResponse :: "invocation_context \<Rightarrow> env \<Rightarrow> submission \<Rightarrow> (state, create_headers) step" where
  "saveSurveyResponse ctx env v =
     js_bind (generateId_step env) (\<lambda>rowKey.
       js_catch (createEntity_call env (response_entity_of env v rowKey))
         (\<lambda>error. js_bind (log_error ctx) (\<lambda>u. js_throw error)))"

record tag_result =
  tr_tag :: string
  tr_status :: string
  tr_error :: "string option"

record tag_save_results =
  totalTags :: nat
  successCount :: nat
  failedCount :: nat
  failedTags :: "tag_result list"

definition tag_entity_of :: "env \<Rightarrow> string \<Rightarrow> string \<Rightarrow> tag_entity" where
  "tag_entity_of env em tagName =
     \<lparr>t_partitionKey = toLowerCase em,
      t_rowKey = tagName,
      t_therapistId = [],
      t_email = toLowerCase em,
      t_tagName = tagName,
      t_tagSource = ''survey'',
      t_createdAt = tag_now env tagName\<rparr>"

text \<open>
  One element of \<open>selectedTags.map(async (tagName) => ...)\<close>: the upsert in its own
  \<open>try\<close>, whose \<open>catch\<close> logs with \<open>context.log.error\<close> and returns the failed
  result.
\<close>

definition saveUserTag :: "invocation_context \<Rightarrow> env \<Rightarrow> string \<Rightarrow> string \<Rightarrow> (state, tag_result) step" where
  "saveUserTag ctx env em tagName =
     js_catch
       (js_bind (upsertEntity_call env (tag_entity_of env em tagName)) (\<lambda>u.
          js_return \<lparr>tr_tag = tagName, tr_status = ''success'', tr_error = None\<rparr>))
       (\<lambda>error.
          js_bind (log_error ctx) (\<lambda>u.
            js_return \<lparr>tr_tag = tagName, tr_status = ''failed'',
                       tr_error = Some (error_message error)\<rparr>))"

text \<open>
  \<open>Promise.all\<close> over the per-tag promises: every one has been started by \<open>map\<close> and
  runs to its end; the whole rejects with the first rejection. The upserts run
  concurrently in the source; the model runs them in list order.
\<close>

fun first_failure :: "js_error + 'a \<Rightarrow> js_error + 'a list \<Rightarrow> js_error + 'a list" where
  "first_failure (Inl e) others = Inl e"
| "first_failure (Inr x) (Inl e) = Inl e"
| "first_failure (Inr x) (Inr xs) = Inr (x # xs)"

fun saveUserTags_all ::
  "invocation_context \<Rightarrow> env \<Rightarrow> string \<Rightarrow> string list \<Rightarrow> (state, js_error + tag_result list) step" where
  "saveUserTags_all ctx env em [] = js_return (Inr [])"
| "saveUserTags_all ctx env em (tagName # rest) =
     js_bind (js_attempt (saveUserTag ctx env em tagName)) (\<lambda>first.
     js_bind (saveUserTags_all ctx env em rest) (\<lambda>others.
       js_return (first_failure first others)))"

definition saveUserTags ::
  "invocation_context \<Rightarrow> env \<Rightarrow> string \<Rightarrow> string list \<Rightarrow> (state, tag_save_results) step" where
  "saveUserTags ctx env em tags =
     js_bind (js_bind (saveUserTags_all ctx env em tags) js_settle) (\<lambda>results.
     js_bind (if length (filter (\<lambda>r. tr_status r = ''failed'') results) > 0
              then log_error ctx else js_return ()) (\<lambda>u.
       js_return
         \<lparr>totalTags = length tags,
          successCount = length (filter (\<lambda>r. tr_status r = ''success'') results),
          failedCount = length (filter (\<lambda>r. tr_status r = ''failed'') results),
          failedTags = filter (\<lambda>r. tr_status r = ''failed'') results\<rparr>))"

section \<open>The \<open>surveySubmission\<close> handler of survey-submission.js\<close>

subsection \<open>Requests, validation results and responses\<close>

text \<open>
  The request body is either a string that \<open>JSON.parse\<close> rejects (\<open>None\<close>) or a parsed
  value of some type \<open>'b\<close>. Joi is a library outside the repository:
  \<open>surveySubmissionSchema.validate(requestBody, {abortEarly: false, stripUnknown: true})\<close>
  is a parameter \<open>validate\<close> of the handler, returning either the list \<open>error.details\<close>
  or the accepted \<open>value\<close>.
\<close>

record 'b request =
  rq_method :: string
  rq_body :: "'b option"

record joi_detail =
  jd_path :: "string list"
  jd_message :: string
  jd_value :: "string option"

fun join :: "string list \<Rightarrow> string" where
  "join [] = []"
| "join [x] = x"
| "join (x # y # ys) = x @ ''.'' @ join (y # ys)"

record validation_entry =
  ve_field :: string
  ve_message :: string
  ve_value :: "string option"

definition validation_entry_of :: "joi_detail \<Rightarrow> validation_entry" where
  "validation_entry_of detail =
     \<lparr>ve_field = join (jd_path detail), ve_message = jd_message detail,
      ve_value = jd_value detail\<rparr>"

datatype details =
    NoDetails
  | ValidationErrors "validation_entry list"
  | InvalidTags "string list"
  | ErrorText string

record response_data =
  rd_email :: string
  rd_name :: string
  rd_tagsProcessed :: nat
  rd_recommendationsCount :: nat
  rd_hasCustomResponses :: bool
  rd_validationPassed :: bool
  rd_databaseStatus :: string
  rd_totalTags :: nat
  rd_savedTags :: nat
  rd_failedTags :: nat
  rd_kitSyncStatus :: string
  rd_kitSyncMessage :: string
  rd_kitTagssynced :: nat

text \<open>
  A response body is absent (the CORS preflight), or the JSON object built by
  \<open>createErrorResponse\<close> (\<open>success: false\<close>, \<open>error\<close>, \<open>details\<close>) or by
  \<open>createSuccessResponse\<close> (\<open>success: true\<close>, \<open>message\<close>, \<open>data\<close>). The \<open>timestamp\<close>
  property and the headers are left out.
\<close>

datatype response_body =
    EmptyBody
  | ErrorBody string details
  | SuccessBody string response_data

record http_response =
  status :: nat
  body :: response_body

fun success :: "response_body \<Rightarrow> bool option" where
  "success EmptyBody = None"
| "success (ErrorBody msg d) = Some False"
| "success (SuccessBody msg d) = Some True"

definition createErrorResponse :: "nat \<Rightarrow> string \<Rightarrow> details \<Rightarrow> http_response" where
  "createErrorResponse st msg d = \<lparr>status = st, body = ErrorBody msg d\<rparr>"

definition createSuccessResponse :: "response_data \<Rightarrow> http_response" where
  "createSuccessResponse d =
     \<lparr>status = 200, body = SuccessBody ''Survey data processed successfully'' d\<rparr>"

subsection \<open>The tag catalog\<close>

definition validTags :: "string list" where
  "validTags =
     [''setting_inperson'', ''setting_mostly_inperson'', ''setting_mixed'',
      ''setting_mostly_online'', ''setting_online_only'',
      ''role_therapist'', ''role_social_worker'', ''role_psychologist'',
      ''role_school_counselor'', ''role_student'', ''role_clergy'',
      ''role_sud_counselor'', ''role_peer_specialist'', ''role_other'',
      ''pop_children10u'', ''pop_teens'', ''pop_adults'',
      ''pop_couples'', ''pop_families'', ''pop_groups'', ''pop_all_day'',
      ''interest_sandtray'', ''interest_art'', ''interest_feelings_wheel'',
      ''interest_humans'', ''interest_tumbling'', ''interest_jeopardy'',
      ''interest_bingo'', ''interest_mandala'',
      ''freq_daily'', ''freq_weekly'', ''freq_monthly'', ''freq_occasionally'',
      ''mod_cbt'', ''mod_dbt'', ''mod_solutions'', ''mod_expressive'',
      ''mod_emdr'', ''mod_couples'', ''mod_ifs'', ''mod_eclectic'', ''mod_other'']"

definition invalidTags :: "string list \<Rightarrow> string list" where
  "invalidTags tags = filter (\<lambda>tag. tag \<notin> set validTags) tags"

subsection \<open>The pipeline\<close>

definition custom_key_count :: "custom_responses \<Rightarrow> nat" where
  "custom_key_count c =
     (if role_other c = Absent then 0 else 1) + (if mod_other c = Absent then 0 else 1)"

definition responseData ::
  "submission \<Rightarrow> tag_save_results \<Rightarrow> kit_result \<Rightarrow> response_data" where
  "responseData v tagSaveResults kitSyncResult =
     \<lparr>rd_email = email v,
      rd_name = name v,
      rd_tagsProcessed = length (selectedTags v),
      rd_recommendationsCount = length (recommendations_of v),
      rd_hasCustomResponses = (custom_key_count (customResponses_of v) > 0),
      rd_validationPassed = True,
      rd_databaseStatus = ''success'',
      rd_totalTags = totalTags tagSaveResults,
      rd_savedTags = successCount tagSaveResults,
      rd_failedTags = failedCount tagSaveResults,
      rd_kitSyncStatus = ks_status kitSyncResult,
      rd_kitSyncMessage = ks_message kitSyncResult,
      rd_kitTagssynced = (case ks_tagssynced kitSyncResult of None \<Rightarrow> 0 | Some n \<Rightarrow> n)\<rparr>"

text \<open>
  \<open>if (!surveyResponsesTable || !userTagsTable) { initializeTableClients(); await
  ensureTablesExist(); }\<close>. Both calls can throw, into the outermost \<open>catch\<close>.
\<close>

definition ensureInitialized :: "env \<Rightarrow> (state, unit) step" where
  "ensureInitialized env s =
     (if clientsInitialized s then (Inr (), s)
      else js_bind (initializeTableClients env) (\<lambda>u. ensureTablesExist env) s)"

text \<open>\<open>surveyRowKey = surveyResponseResult.rowKey || generateId()\<close>.\<close>

definition surveyRowKey_of :: "env \<Rightarrow> create_headers \<Rightarrow> (state, string) step" where
  "surveyRowKey_of env surveyResponseResult =
     (if truthy (rowKey_property surveyResponseResult)
      then js_return (the (rowKey_property surveyResponseResult))
      else generateId_step env)"

text \<open>\<open>syncTagsToKit\<close> as a step: the requests it sends are recorded.\<close>

definition syncTagsToKit_step ::
  "invocation_context \<Rightarrow> env \<Rightarrow> string \<Rightarrow> string list \<Rightarrow> (state, kit_result) step" where
  "syncTagsToKit_step ctx env em tags s =
     (case syncTagsToKit ctx env em tags of
        (outcome, requests) \<Rightarrow> (outcome, s\<lparr>calls := calls s @ map Fetch requests\<rparr>))"

text \<open>
  The Kit step of the handler: the sync and the status update in a \<open>try\<close>, whose
  \<open>catch\<close> logs with \<open>context.log.error\<close>, sets the failed result and updates the
  status to \<open>'failed'\<close>.
\<close>

definition kitSyncStep :: "invocation_context \<Rightarrow> env \<Rightarrow> submission \<Rightarrow> string \<Rightarrow> (state, kit_result) step" where
  "kitSyncStep ctx env v surveyRowKey =
     js_catch
       (js_bind (syncTagsToKit_step ctx env (email v) (selectedTags v)) (\<lambda>kitSyncResult.
        js_bind (updateKitSyncStatus ctx env (email v) surveyRowKey (ks_status kitSyncResult)) (\<lambda>u.
          js_return kitSyncResult)))
       (\<lambda>error.
        js_bind (log_error ctx) (\<lambda>u.
        js_bind (updateKitSyncStatus ctx env (email v) surveyRowKey ''failed'') (\<lambda>u.
          js_return ((kit_plain ''failed'' ''Kit.com sync failed'')
                       \<lparr>ks_error := Some (error_message error)\<rparr>))))"

text \<open>
  Everything after the tag check: save the response, save the tags, sync, respond. The
  \<open>catch\<close> blocks around the two saves log with \<open>context.log.error\<close> and return a 500.
\<close>

definition persist :: "invocation_context \<Rightarrow> env \<Rightarrow> submission \<Rightarrow> (state, http_response) step" where
  "persist ctx env v =
     js_bind (js_attempt
                (js_bind (saveSurveyResponse ctx env v) (\<lambda>surveyResponseResult.
                   surveyRowKey_of env surveyResponseResult))) (\<lambda>saved.
       case saved of
         Inl error \<Rightarrow>
           js_bind (log_error ctx) (\<lambda>u.
             js_return (createErrorResponse 500 ''Failed to save survey response''
                          (ErrorText (error_message error))))
       | Inr surveyRowKey \<Rightarrow>
           js_bind (js_attempt (saveUserTags ctx env (email v) (selectedTags v))) (\<lambda>tagged.
             case tagged of
               Inl error \<Rightarrow>
                 js_bind (log_error ctx) (\<lambda>u.
                   js_return (createErrorResponse 500 ''Failed to save user tags''
                                (ErrorText (error_message error))))
             | Inr tagSaveResults \<Rightarrow>
                 js_bind (kitSyncStep ctx env v surveyRowKey) (\<lambda>kitSyncResult.
                   js_return (createSuccessResponse
                                (responseData v tagSaveResults kitSyncResult)))))"

text \<open>
  The body of the outermost \<open>try\<close>. The three rejections log with
  \<open>context.log.error\<close> before they return the 400.
\<close>

definition process ::
  "('b \<Rightarrow> joi_detail list + submission) \<Rightarrow> invocation_context \<Rightarrow> env \<Rightarrow> 'b request
     \<Rightarrow> (state, http_response) step" where
  "process validate ctx env rq =
     (case rq_body rq of
        None \<Rightarrow>
          js_bind (log_error ctx) (\<lambda>u.
            js_return (createErrorResponse 400 ''Invalid JSON in request body'' NoDetails))
      | Some requestBody \<Rightarrow>
          (case validate requestBody of
             Inl error_details \<Rightarrow>
               js_bind (log_error ctx) (\<lambda>u.
                 js_return (createErrorResponse 400 ''Validation failed''
                              (ValidationErrors (map validation_entry_of error_details))))
           | Inr v \<Rightarrow>
               js_bind (ensureInitialized env) (\<lambda>u.
                 if length (invalidTags (selectedTags v)) > 0 then
                   js_bind (log_error ctx) (\<lambda>u.
                     js_return (createErrorResponse 400 ''Invalid tags detected''
                                  (InvalidTags (invalidTags (selectedTags v)))))
                 else persist ctx env v)))"

text \<open>
  The handler. Its outermost \<open>catch\<close> logs with \<open>context.log.error\<close> and returns the
  500 response; an exception of that logging call leaves the handler (\<open>Inl\<close>), as a
  rejected promise.
\<close>

definition surveySubmission ::
  "('b \<Rightarrow> joi_detail list + submission) \<Rightarrow> invocation_context \<Rightarrow> env \<Rightarrow> 'b request
     \<Rightarrow> (state, http_response) step" where
  "surveySubmission validate ctx env rq s =
     (if rq_method rq = ''OPTIONS'' then (Inr \<lparr>status = 200, body = EmptyBody\<rparr>, s)
      else js_catch (process validate ctx env rq)
             (\<lambda>error. js_bind (log_error ctx) (\<lambda>u.
                js_return (createErrorResponse 500 ''Internal server error'' NoDetails))) s)"

section \<open>The second implementation: storage services, Kit service and handler\<close>

text \<open>
  The repository holds a second \<open>surveySubmission\<close> handler (route
  \<open>survey-submission\<close>, schema \<open>surveySchema\<close>) built on a storage service module
  (\<open>getSubscriberByEmail\<close>, \<open>insertSurveyResponse\<close>, \<open>updateSubscriberTags\<close>,
  \<open>updateKitSyncStatus\<close>) and on the Kit service module above. Its constants carry the
  prefix \<open>svc_\<close>.
\<close>

subsection \<open>State and environment\<close>

record subscriber =
  sb_partitionKey :: string
  sb_rowKey :: string
  sb_props :: "(string \<times> string) list"

record svc_response_entity =
  sr_partitionKey :: string
  sr_rowKey :: string
  sr_therapistId :: "string option"
  sr_email :: string
  sr_name :: string
  sr_surveyData :: survey_answers
  sr_recommendations :: "string list"
  sr_selectedTags :: "string list"
  sr_customResponses :: custom_responses
  sr_completedAt :: string
  sr_completed :: bool
  sr_kitSyncStatus :: string
  sr_kitSyncedAt :: "string option"
  sr_kitErrorMessage :: "string option"

text \<open>
  A row of the survey-responses table: the entity \<open>insertSurveyResponse\<close> created, or
  what \<open>updateEntity\<close> in mode Replace leaves of it (the keys, \<open>kitSyncStatus\<close>,
  \<open>kitSyncedAt\<close>).
\<close>

datatype svc_row =
    ResponseRow svc_response_entity
  | StatusRow string string string "string option"

text \<open>The calls to the storage library, reads included.\<close>

datatype svc_call =
    SvcCreateTable string
  | SvcListSubscribers string
  | SvcCreateResponse string string
  | SvcMergeSubscriber string string
  | SvcReplaceSubscriber string string
  | SvcGetResponse string string
  | SvcReplaceResponse string string

fun svc_is_write :: "svc_call \<Rightarrow> bool" where
  "svc_is_write (SvcCreateResponse pk rk) = True"
| "svc_is_write (SvcMergeSubscriber pk rk) = True"
| "svc_is_write (SvcReplaceSubscriber pk rk) = True"
| "svc_is_write (SvcReplaceResponse pk rk) = True"
| "svc_is_write (SvcCreateTable t) = False"
| "svc_is_write (SvcListSubscribers em) = False"
| "svc_is_write (SvcGetResponse pk rk) = False"

record svc_state =
  tableServiceClient :: bool
  subscribers :: "subscriber list"
  surveyresponses :: "svc_row list"
  svc_calls :: "svc_call list"
  svc_requests :: "kit_request list"

text \<open>
  \<open>svc_error\<close> gives, for the n-th storage call of the process, the error it throws,
  if it throws; \<open>dateNow\<close> is \<open>Date.now()\<close> as rendered in a template literal and
  \<open>nowISO\<close> is
  \<open>new Date().toISOString()\<close>.
\<close>

record svc_env = kit_env +
  svc_connection_string :: "string option"
  svc_error :: "nat \<Rightarrow> svc_call \<Rightarrow> js_error option"
  dateNow :: string
  nowISO :: string

text \<open>A storage call: it is recorded, then it throws or not as the environment says.\<close>

definition svc_storage :: "svc_env \<Rightarrow> svc_call \<Rightarrow> (svc_state, unit) step" where
  "svc_storage env c s =
     (case svc_error env (length (svc_calls s)) c of
        Some error \<Rightarrow> (Inl error, s\<lparr>svc_calls := svc_calls s @ [c]\<rparr>)
      | None \<Rightarrow> (Inr (), s\<lparr>svc_calls := svc_calls s @ [c]\<rparr>))"

subsection \<open>The storage service module\<close>

definition svc_initializeTableClient :: "svc_env \<Rightarrow> (svc_state, unit) step" where
  "svc_initializeTableClient env s =
     (if tableServiceClient s then (Inr (), s)
      else if \<not> truthy (svc_connection_string env) then
        (Inl (Error ''AZURE_STORAGE_CONNECTION_STRING environment variable is not set''), s)
      else (Inr (), s\<lparr>tableServiceClient := True\<rparr>))"

text \<open>
  \<open>getTableClient\<close>: after \<open>initializeTableClient()\<close> it evaluates
  \<open>new TableClient(process.env.AZURE_STORAGE_CONNECTION_STRING, tableName)\<close>. The
  constructor of the storage library takes the URL of the table service as its first
  argument and throws on a connection string (those are for
  \<open>TableClient.fromConnectionString\<close>, which survey-submission.js uses), so the call
  throws whenever the connection string is set.
\<close>

definition svc_getTableClient :: "svc_env \<Rightarrow> (svc_state, unit) step" where
  "svc_getTableClient env =
     js_bind (svc_initializeTableClient env) (\<lambda>u. js_throw (TypeError ''Invalid URL''))"

text \<open>Both \<open>createTable\<close> calls swallow every error (409 silently, the others logged).\<close>

definition svc_ensureTablesExist :: "svc_env \<Rightarrow> (svc_state, unit) step" where
  "svc_ensureTablesExist env =
     js_bind (svc_initializeTableClient env) (\<lambda>u.
     js_bind (js_catch (svc_storage env (SvcCreateTable ''subscribers'')) (\<lambda>error. js_return ())) (\<lambda>u.
     js_catch (svc_storage env (SvcCreateTable ''surveyresponses'')) (\<lambda>error. js_return ())))"

text \<open>
  \<open>tableClient.listEntities({filter: `Email eq '${email}'`})\<close> followed by a loop that
  returns the first entity. The library reads the filter from
  \<open>options.queryOptions.filter\<close>; a \<open>filter\<close> property of the options themselves is
  ignored, so the listing is the whole table and the first row is returned whatever
  the email.
\<close>

definition find_subscriber :: "string \<Rightarrow> subscriber list \<Rightarrow> subscriber option" where
  "find_subscriber em tbl = (case tbl of [] \<Rightarrow> None | entity # others \<Rightarrow> Some entity)"

definition svc_listSubscribers :: "string \<Rightarrow> (svc_state, subscriber option) step" where
  "svc_listSubscribers em s = (Inr (find_subscriber em (subscribers s)), s)"

text \<open>
  \<open>getSubscriberByEmail\<close>: \<open>getTableClient\<close> outside the \<open>try\<close>, then the first
  entity of the listing, or \<open>null\<close>; an error is rethrown.
\<close>

definition svc_getSubscriberByEmail :: "svc_env \<Rightarrow> string \<Rightarrow> (svc_state, subscriber option) step" where
  "svc_getSubscriberByEmail env em =
     js_bind (svc_getTableClient env) (\<lambda>u.
     js_catch
       (js_bind (svc_storage env (SvcListSubscribers em)) (\<lambda>u. svc_listSubscribers em))
       (\<lambda>error. js_throw error))"

fun svc_response_key :: "svc_row \<Rightarrow> string \<times> string" where
  "svc_response_key (ResponseRow r) = (sr_partitionKey r, sr_rowKey r)"
| "svc_response_key (StatusRow pk rk st at) = (pk, rk)"

fun svc_row_kitSyncedAt :: "svc_row \<Rightarrow> string option" where
  "svc_row_kitSyncedAt (ResponseRow r) = sr_kitSyncedAt r"
| "svc_row_kitSyncedAt (StatusRow pk rk st at) = at"

definition subscriber_key :: "subscriber \<Rightarrow> string \<times> string" where
  "subscriber_key sb = (sb_partitionKey sb, sb_rowKey sb)"

definition svc_surveyResponse :: "svc_env \<Rightarrow> string \<Rightarrow> submission \<Rightarrow> svc_response_entity" where
  "svc_surveyResponse env therapistId v =
     \<lparr>sr_partitionKey = email v,
      sr_rowKey = email v @ ''_'' @ dateNow env,
      sr_therapistId = (if therapistId \<noteq> [] then Some therapistId else None),
      sr_email = email v,
      sr_name = name v,
      sr_surveyData = surveyData v,
      sr_recommendations = recommendations_of v,
      sr_selectedTags = selectedTags v,
      sr_customResponses = customResponses_of v,
      sr_completedAt = (if truthy (timestamp v) then the (timestamp v) else nowISO env),
      sr_completed = (case completed v of None \<Rightarrow> False | Some b \<Rightarrow> b),
      sr_kitSyncStatus = ''pending'',
      sr_kitSyncedAt = None,
      sr_kitErrorMessage = None\<rparr>"

definition svc_createResponse :: "svc_response_entity \<Rightarrow> (svc_state, string) step" where
  "svc_createResponse entity s =
     (if List.member (map svc_response_key (surveyresponses s))
           (sr_partitionKey entity, sr_rowKey entity)
      then (Inl (RestError 409 ''EntityAlreadyExists''), s)
      else (Inr (sr_rowKey entity),
            s\<lparr>surveyresponses := surveyresponses s @ [ResponseRow entity]\<rparr>))"

text \<open>
  \<open>insertSurveyResponse\<close>: \<open>createEntity\<close> on the survey-responses table, returning the
  response id; an error is rethrown.
\<close>

definition svc_insertSurveyResponse :: "svc_env \<Rightarrow> string \<Rightarrow> submission \<Rightarrow> (svc_state, string) step" where
  "svc_insertSurveyResponse env therapistId v =
     js_bind (svc_getTableClient env) (\<lambda>u.
     js_catch
       (js_bind (svc_storage env
                   (SvcCreateResponse (email v) (email v @ ''_'' @ dateNow env))) (\<lambda>u.
          svc_createResponse (svc_surveyResponse env therapistId v)))
       (\<lambda>error. js_throw error))"

fun set_props :: "(string \<times> string) list \<Rightarrow> (string \<times> string) list \<Rightarrow> (string \<times> string) list" where
  "set_props [] props = props"
| "set_props ((k, v) # kvs) props = set_props kvs ((k, v) # filter (\<lambda>p. fst p \<noteq> k) props)"

definition svc_writeSubscriber ::
  "bool \<Rightarrow> subscriber \<Rightarrow> (string \<times> string) list \<Rightarrow> (svc_state, unit) step" where
  "svc_writeSubscriber merge sb kvs s =
     (if \<not> List.member (map subscriber_key (subscribers s)) (subscriber_key sb)
      then (Inl (RestError 404 ''ResourceNotFound''), s)
      else (Inr (), s\<lparr>subscribers :=
              map (\<lambda>x. if subscriber_key x = subscriber_key sb
                        then x\<lparr>sb_props := set_props kvs (if merge then sb_props x else [])\<rparr>
                        else x) (subscribers s)\<rparr>))"

text \<open>\<open>updateEntity\<close> on the subscribers table, in mode Merge or Replace, on an existing row.\<close>

definition svc_updateSubscriber ::
  "svc_env \<Rightarrow> bool \<Rightarrow> subscriber \<Rightarrow> (string \<times> string) list \<Rightarrow> (svc_state, unit) step" where
  "svc_updateSubscriber env merge sb kvs =
     js_bind (svc_storage env
        ((if merge then SvcMergeSubscriber else SvcReplaceSubscriber)
           (sb_partitionKey sb) (sb_rowKey sb))) (\<lambda>u.
       svc_writeSubscriber merge sb kvs)"

text \<open>
  \<open>updateSubscriberTags(subscriberId, updateData)\<close> with the \<open>updateData\<close> the handler
  builds: \<open>{tagName, email, tagSource: 'survey', createdAt}\<close>. A truthy \<open>tagName\<close> takes
  the individual-tag branch; the legacy branch writes the full survey columns from an
  \<open>updateData\<close> that has none of them. Every error is rethrown.
\<close>

definition legacy_columns :: "svc_env \<Rightarrow> (string \<times> string) list" where
  "legacy_columns env =
     [(''surveyCompleted'', ''true''), (''surveyCompletedAt'', nowISO env),
      (''lastSurveyData'', ''{}''), (''Q1'', []), (''Q2'', []), (''Q3'', ''[]''),
      (''Q4'', ''[]''), (''Q5'', []), (''Q6'', ''[]''), (''Q2_other'', []),
      (''Q6_other'', []), (''allSelectedTags'', ''[]''), (''customResponses'', []),
      (''kitSyncStatus'', ''pending''), (''lastUpdated'', nowISO env)]"

definition svc_updateSubscriberTags ::
  "svc_env \<Rightarrow> string \<Rightarrow> string \<Rightarrow> string \<Rightarrow> (svc_state, unit) step" where
  "svc_updateSubscriberTags env subscriberId tagName em =
     js_bind (svc_getTableClient env) (\<lambda>u.
     js_catch
       (if tagName \<noteq> [] then
          js_bind (svc_getSubscriberByEmail env em) (\<lambda>found.
            case found of
              None \<Rightarrow> js_throw (Error (''Subscriber with email '' @ em @ '' not found''))
            | Some sb \<Rightarrow>
                svc_updateSubscriber env True sb
                  [(''tag_'' @ tagName, tagName),
                   (''tag_'' @ tagName @ ''_source'', ''survey''),
                   (''tag_'' @ tagName @ ''_createdAt'', nowISO env),
                   (''lastTagUpdate'', nowISO env)])
        else
          js_bind (svc_getSubscriberByEmail env (if em \<noteq> [] then em else subscriberId)) (\<lambda>found.
            case found of
              None \<Rightarrow> js_throw (Error (''Subscriber '' @ subscriberId @ '' not found''))
            | Some sb \<Rightarrow> svc_updateSubscriber env True sb (legacy_columns env)))
       (\<lambda>error. js_throw error))"

text \<open>
  \<open>Promise.all(tagPromises)\<close>: every per-tag call has been started by \<open>map\<close> and
  runs to its end; the whole rejects with the first rejection (here: in list order).
\<close>

fun first_rejection :: "js_error + unit \<Rightarrow> js_error + unit \<Rightarrow> js_error + unit" where
  "first_rejection (Inl e) others = Inl e"
| "first_rejection (Inr u) others = others"

fun svc_allTags :: "svc_env \<Rightarrow> string \<Rightarrow> string \<Rightarrow> string list \<Rightarrow> (svc_state, js_error + unit) step" where
  "svc_allTags env subscriberId em [] = js_return (Inr ())"
| "svc_allTags env subscriberId em (tagName # rest) =
     js_bind (js_attempt (svc_updateSubscriberTags env subscriberId tagName em)) (\<lambda>first.
     js_bind (svc_allTags env subscriberId em rest) (\<lambda>others.
       js_return (first_rejection first others)))"

definition svc_updateAllTags :: "svc_env \<Rightarrow> string \<Rightarrow> string \<Rightarrow> string list \<Rightarrow> (svc_state, unit) step" where
  "svc_updateAllTags env subscriberId em tags =
     js_bind (svc_allTags env subscriberId em tags) js_settle"

text \<open>
  \<open>updateKitSyncStatus(email, status, responseId)\<close>: the subscriber row is replaced when
  a subscriber is found; when \<open>responseId\<close> is truthy the survey-response row is read
  and replaced inside an inner \<open>try\<close> that swallows its errors; any other error is
  rethrown.
\<close>

definition svc_getResponse :: "string \<Rightarrow> string \<Rightarrow> (svc_state, svc_row) step" where
  "svc_getResponse pk rk s =
     (case List.find (\<lambda>r. svc_response_key r = (pk, rk)) (surveyresponses s) of
        None \<Rightarrow> (Inl (RestError 404 ''ResourceNotFound''), s)
      | Some row \<Rightarrow> (Inr row, s))"

definition svc_replaceResponse :: "svc_row \<Rightarrow> (svc_state, unit) step" where
  "svc_replaceResponse row s =
     (Inr (), s\<lparr>surveyresponses :=
        map (\<lambda>r. if svc_response_key r = svc_response_key row then row else r)
            (surveyresponses s)\<rparr>)"

definition svc_patchResponse :: "svc_env \<Rightarrow> string \<Rightarrow> string \<Rightarrow> string \<Rightarrow> (svc_state, unit) step" where
  "svc_patchResponse env em syncStatus responseId =
     js_bind (svc_storage env (SvcGetResponse em responseId)) (\<lambda>u.
     js_bind (svc_getResponse em responseId) (\<lambda>surveyResponse.
     js_bind (svc_storage env (SvcReplaceResponse em responseId)) (\<lambda>u.
       svc_replaceResponse
         (StatusRow em responseId syncStatus
            (if syncStatus = ''success'' then Some (nowISO env)
             else svc_row_kitSyncedAt surveyResponse)))))"

definition svc_updateKitSyncStatus ::
  "svc_env \<Rightarrow> string \<Rightarrow> string \<Rightarrow> string option \<Rightarrow> (svc_state, unit) step" where
  "svc_updateKitSyncStatus env em syncStatus responseId =
     js_catch
       (js_bind (svc_getTableClient env) (\<lambda>u.
        js_bind (svc_getSubscriberByEmail env em) (\<lambda>found.
        js_bind
          (case found of
             None \<Rightarrow> js_return ()
           | Some sb \<Rightarrow>
               svc_updateSubscriber env False sb
                 ([(''kitSyncStatus'', syncStatus)]
                  @ (if syncStatus = ''success'' then [(''kitSyncedAt'', nowISO env)]
                     else case map_of (sb_props sb) ''kitSyncedAt'' of
                            None \<Rightarrow> [] | Some at \<Rightarrow> [(''kitSyncedAt'', at)])
                  @ [(''updatedAt'', nowISO env)])) (\<lambda>u.
          if truthy responseId then
            js_bind (svc_getTableClient env) (\<lambda>u.
              js_catch (svc_patchResponse env em syncStatus (the responseId))
                (\<lambda>error. js_return ()))
          else js_return ()))))
       (\<lambda>error. js_throw error)"

subsection \<open>The handler\<close>

datatype svc_body =
    SvcEmpty
  | SvcValidationFailed string string
  | SvcNotFound
  | SvcSuccess nat nat string
  | SvcInternalError

record svc_http_response =
  svc_status :: nat
  svc_body :: svc_body

text \<open>
  The Kit step of the handler. The call is \<open>syncTagsToKit(value.email,
  value.selectedTags)\<close>, while the service function takes one \<open>data\<close> argument and
  destructures \<open>email\<close> and \<open>tags\<close> from it: the argument is the email string, which has
  neither property, and the tag list is dropped. An exception of the \<open>try\<close> (from the
  sync or from the status update) enters the \<open>catch\<close>, which logs with
  \<open>context.log.warn\<close> and whose own status update can throw again, into the outermost
  \<open>catch\<close>. The result is \<open>kitSyncStatus\<close>.
\<close>

definition svc_sync_call :: "svc_env \<Rightarrow> kit_data \<Rightarrow> (svc_state, kitApi_result) step" where
  "svc_sync_call env dat s =
     (fst (kitApi_syncTagsToKit env dat),
      s\<lparr>svc_requests := svc_requests s @ snd (kitApi_syncTagsToKit env dat)\<rparr>)"

definition svc_kitStep ::
  "invocation_context \<Rightarrow> svc_env \<Rightarrow> subscriber \<Rightarrow> submission \<Rightarrow> (svc_state, string) step" where
  "svc_kitStep ctx env sb v =
     js_catch
       (js_bind (svc_sync_call env \<lparr>d_email = None, d_tags = None\<rparr>) (\<lambda>kitResult.
        js_bind (svc_updateKitSyncStatus env (sb_rowKey sb)
                   (if ka_success kitResult then ''success'' else ''failed'')
                   (ka_error kitResult)) (\<lambda>u.
          js_return (if ka_success kitResult then ''success'' else ''failed''))))
       (\<lambda>kitApiError.
        js_bind (log_warn ctx) (\<lambda>u.
        js_bind (svc_updateKitSyncStatus env (sb_rowKey sb) ''failed''
                   (Some (error_message kitApiError))) (\<lambda>u.
          js_return ''failed'')))"

text \<open>
  The body of the handler's \<open>try\<close>. \<open>request.json()\<close> throws on a body that is not
  JSON; \<open>surveySchema.validate(requestBody)\<close> (default options) is the parameter
  \<open>validate\<close>; of its \<open>error.details\<close> the handler reads element 0 only.
\<close>

definition svc_process ::
  "('b \<Rightarrow> joi_detail list + submission) \<Rightarrow> invocation_context \<Rightarrow> svc_env \<Rightarrow> 'b request
     \<Rightarrow> (svc_state, svc_http_response) step" where
  "svc_process validate ctx env rq =
     (case rq_body rq of
        None \<Rightarrow> js_throw (Error ''Unexpected token in JSON'')
      | Some requestBody \<Rightarrow>
          (case validate requestBody of
             Inl [] \<Rightarrow> js_throw (TypeError ''Cannot read properties of undefined (reading message)'')
           | Inl (detail # others) \<Rightarrow>
               js_return \<lparr>svc_status = 400,
                 svc_body = SvcValidationFailed (jd_message detail) (join (jd_path detail))\<rparr>
           | Inr v \<Rightarrow>
               js_bind (svc_ensureTablesExist env) (\<lambda>u.
               js_bind (svc_getSubscriberByEmail env (email v)) (\<lambda>found.
                 case found of
                   None \<Rightarrow> js_return \<lparr>svc_status = 404, svc_body = SvcNotFound\<rparr>
                 | Some sb \<Rightarrow>
                     js_bind (svc_insertSurveyResponse env (sb_rowKey sb) v) (\<lambda>responseId.
                     js_bind (svc_updateAllTags env (sb_rowKey sb) (email v) (selectedTags v)) (\<lambda>u.
                     js_bind (svc_kitStep ctx env sb v) (\<lambda>kitSyncStatus.
                       js_return \<lparr>svc_status = 200,
                         svc_body = SvcSuccess (length (selectedTags v))
                                      (length (recommendations_of v)) kitSyncStatus\<rparr>)))))))"

text \<open>
  The handler. Its \<open>catch\<close> logs with \<open>context.log.error\<close> and returns the 500
  response; an exception of that logging call leaves the handler (\<open>Inl\<close>), as a
  rejected promise.
\<close>

definition svc_surveySubmission ::
  "('b \<Rightarrow> joi_detail list + submission) \<Rightarrow> invocation_context \<Rightarrow> svc_env \<Rightarrow> 'b request
     \<Rightarrow> (svc_state, svc_http_response) step" where
  "svc_surveySubmission validate ctx env rq s =
     (if rq_method rq = ''OPTIONS'' then (Inr \<lparr>svc_status = 200, svc_body = SvcEmpty\<rparr>, s)
      else js_catch (svc_process validate ctx env rq)
             (\<lambda>error. js_bind (log_error ctx) (\<lambda>u.
                js_return \<lparr>svc_status = 500, svc_body = SvcInternalError\<rparr>)) s)"

section \<open>The validation utilities: \<open>sanitizeInput\<close>\<close>

text \<open>
  \<open>input.trim().replace(/[<>]/g, '').replace(/['"]/g, '').substring(0, 1000)\<close> on a
  string input. \<open>trim\<close> is modelled on the ASCII white space (tab, line feed, vertical
  tab, form feed, carriage return, space).
\<close>

definition isSpace :: "char \<Rightarrow> bool" where
  "isSpace c = (c \<in> {CHR 0x09, CHR 0x0A, CHR 0x0B, CHR 0x0C, CHR 0x0D, CHR 0x20})"

definition trim :: "string \<Rightarrow> string" where
  "trim s = rev (dropWhile isSpace (rev (dropWhile isSpace s)))"

definition sanitizeInput :: "string \<Rightarrow> string" where
  "sanitizeInput input =
     take 1000
       (filter (\<lambda>c. c \<noteq> CHR 0x27 \<and> c \<noteq> CHR 0x22)
          (filter (\<lambda>c. c \<noteq> CHR ''<'' \<and> c \<noteq> CHR ''>'') (trim input)))"

section \<open>Concrete requests and environments\<close>

text \<open>
  A submission that the schema of survey-submission.js accepts, an environment in which
  every collaborator works, and a fresh process.
\<close>

definition sample_answers :: survey_answers where
  "sample_answers =
     \<lparr>setting = ''setting_mixed'', profession = ''role_other'',
      populations = [''pop_adults''], interests = [''interest_art''],
      frequency = ''freq_weekly'', modalities = [''mod_cbt''],
      profession_other = Text ''Coach'', modality_other = Absent\<rparr>"

definition sample_submission :: submission where
  "sample_submission =
     \<lparr>name = ''Al'', email = ''Al@Example.com'', surveyData = sample_answers,
      recommendations = Some [''Sandtray''],
      selectedTags = [''setting_mixed'', ''role_other'', ''pop_adults'',
                      ''interest_art'', ''freq_weekly'', ''mod_cbt''],
      customResponses = Some \<lparr>role_other = Text ''Coach'', mod_other = Absent\<rparr>,
      timestamp = None, completed = Some False\<rparr>"

definition sample_env :: env where
  "sample_env =
     \<lparr>KIT_API_KEY = Some ''key'', KIT_FORM_ID = None,
      fetch = (\<lambda>rq. Responds 200 ''{}'' True),
      AZURE_STORAGE_CONNECTION_STRING = Some ''DefaultEndpointsProtocol=https;AccountName=acct;AccountKey=a2V5;EndpointSuffix=core.windows.net'',
      createTable_error = (\<lambda>t. None),
      createEntity_error = None,
      createEntity_etag = ''etag-1'',
      upsertEntity_error = (\<lambda>t. None),
      updateEntity_error = None,
      generateId = (\<lambda>n. ''id'' @ decimal n),
      parseDate = (\<lambda>d. 0),
      now = 7,
      tag_now = (\<lambda>t. 7)\<rparr>"

definition fresh_state :: state where
  "fresh_state =
     \<lparr>clientsInitialized = False, surveyResponsesTable = [], userTagsTable = [],
      idCount = 0, calls = []\<rparr>"

definition post :: "'b \<Rightarrow> 'b request" where
  "post b = \<lparr>rq_method = ''POST'', rq_body = Some b\<rparr>"

text \<open>
  The context that the runtime of \<open>app.http\<close> passes to a handler, on which neither
  \<open>context.log.error\<close> nor \<open>context.log.warn\<close> is a function, and a context on which
  both are.
\<close>

definition v4_context :: invocation_context where
  "v4_context = \<lparr>log_error_callable = False, log_warn_callable = False\<rparr>"

definition logging_context :: invocation_context where
  "logging_context = \<lparr>log_error_callable = True, log_warn_callable = True\<rparr>"

text \<open>A validator standing for Joi on bodies that are already well-typed and accepted.\<close>

definition accept :: "submission \<Rightarrow> joi_detail list + submission" where
  "accept v = Inr v"


text \<open>A process without the storage connection string, and a later moment for the tags.\<close>

definition unconfigured_env :: env where
  "unconfigured_env = sample_env\<lparr>AZURE_STORAGE_CONNECTION_STRING := None\<rparr>"

definition later_env :: env where
  "later_env = sample_env\<lparr>tag_now := (\<lambda>t. 9)\<rparr>"

text \<open>A name with markup, and a tag list with a value outside the catalog.\<close>

definition markup_submission :: submission where
  "markup_submission = sample_submission\<lparr>name := ''<b>Al</b>''\<rparr>"

definition off_catalog_submission :: submission where
  "off_catalog_submission =
     sample_submission\<lparr>
       selectedTags := selectedTags sample_submission @ [''vip_customer''],
       timestamp := Some ''2025-09-01T12:00:00.000Z'', completed := Some True\<rparr>"

text \<open>A body with no name and no email, as Joi reports it when it does not stop early.\<close>

definition two_violations :: "joi_detail list" where
  "two_violations =
     [\<lparr>jd_path = [''name''], jd_message = ''name is required'', jd_value = None\<rparr>,
      \<lparr>jd_path = [''email''], jd_message = ''email is required'', jd_value = None\<rparr>]"

definition reject_both :: "unit \<Rightarrow> joi_detail list + submission" where
  "reject_both b = Inl two_violations"

text \<open>The world of the second implementation: one subscriber row, working storage.\<close>

definition sample_subscriber :: subscriber where
  "sample_subscriber =
     \<lparr>sb_partitionKey = ''subscribers'', sb_rowKey = ''sub-1'',
      sb_props = [(''Email'', ''Al@Example.com'')]\<rparr>"

definition svc_sample_env :: svc_env where
  "svc_sample_env =
     \<lparr>KIT_API_KEY = Some ''key'', KIT_FORM_ID = None,
      fetch = (\<lambda>rq. Responds 200 ''{}'' True),
      svc_connection_string = Some ''DefaultEndpointsProtocol=https;AccountName=acct;AccountKey=a2V5;EndpointSuffix=core.windows.net'',
      svc_error = (\<lambda>n c. None),
      dateNow = ''1756728000000'',
      nowISO = ''2025-09-01T12:00:00.000Z''\<rparr>"

definition svc_fresh_state :: svc_state where
  "svc_fresh_state =
     \<lparr>tableServiceClient = False, subscribers = [sample_subscriber], surveyresponses = [],
      svc_calls = [], svc_requests = []\<rparr>"

definition sample_kit_data :: kit_data where
  "sample_kit_data = \<lparr>d_email = Some ''Al@Example.com'', d_tags = Some [''mod_cbt'', ''role_other'']\<rparr>"

section \<open>Notions used in the properties\<close>

text \<open>The rows of the tags table that belong to an email (partition key).\<close>

definition tag_rows :: "string \<Rightarrow> state \<Rightarrow> tag_entity list" where
  "tag_rows em s = filter (\<lambda>r. t_partitionKey r = toLowerCase em) (userTagsTable s)"

text \<open>The table after the upserts of one fault-free run of \<open>saveUserTags\<close>.\<close>

definition upsert_all :: "env \<Rightarrow> string \<Rightarrow> string list \<Rightarrow> tag_entity list \<Rightarrow> tag_entity list" where
  "upsert_all env em tags tbl = foldl (\<lambda>tb t. upsertEntity (tag_entity_of env em t) tb) tbl tags"

text \<open>Environments in which the Kit request times out, and in which every tag upsert fails.\<close>

definition timeout_env :: env where
  "timeout_env = sample_env\<lparr>fetch := (\<lambda>rq. Rejects ''network timeout'')\<rparr>"

definition tag_outage_env :: env where
  "tag_outage_env =
     sample_env\<lparr>upsertEntity_error := (\<lambda>t. Some (RestError 503 ''storage unavailable''))\<rparr>"

text \<open>A POST whose body is a string that \<open>JSON.parse\<close> rejects.\<close>

definition unparseable :: "submission request" where
  "unparseable = \<lparr>rq_method = ''POST'', rq_body = None\<rparr>"

text \<open>
  A step keeps the stored records completed: if every record of the survey-responses
  table has \<open>completed = true\<close> before the step, every record has it afterwards.
\<close>

definition all_completed :: "state \<Rightarrow> bool" where
  "all_completed s = list_all r_completed (surveyResponsesTable s)"

definition keeps_completed :: "(state, 'a) step \<Rightarrow> bool" where
  "keeps_completed m = (\<forall>s. all_completed s \<longrightarrow> all_completed (snd (m s)))"


section \<open>Reasoning about steps\<close>

lemma js_bind_split:
  "P (js_bind m f s) \<longleftrightarrow>
     (\<forall>e s1. m s = (Inl e, s1) \<longrightarrow> P (Inl e, s1)) \<and> (\<forall>x s1. m s = (Inr x, s1) \<longrightarrow> P (f x s1))"
proof (cases "m s")
  case (Pair r s1)
  then show ?thesis by (cases r) (simp_all add: js_bind_def)
qed

lemma js_catch_split:
  "P (js_catch m h s) \<longleftrightarrow>
     (\<forall>e s1. m s = (Inl e, s1) \<longrightarrow> P (h e s1)) \<and> (\<forall>x s1. m s = (Inr x, s1) \<longrightarrow> P (Inr x, s1))"
proof (cases "m s")
  case (Pair r s1)
  then show ?thesis by (cases r) (simp_all add: js_catch_def)
qed

lemma js_attempt_eq: "js_attempt m s = (Inr (fst (m s)), snd (m s))"
  by (cases "m s") (simp add: js_attempt_def)

lemma js_bind_Inr: "m s = (Inr x, s1) \<Longrightarrow> js_bind m f s = f x s1"
  by (simp add: js_bind_def)

lemma js_bind_Inl: "m s = (Inl e, s1) \<Longrightarrow> js_bind m f s = (Inl e, s1)"
  by (simp add: js_bind_def)

lemma js_catch_Inr: "m s = (Inr x, s1) \<Longrightarrow> js_catch m h s = (Inr x, s1)"
  by (simp add: js_catch_def)

lemma js_catch_Inl: "m s = (Inl e, s1) \<Longrightarrow> js_catch m h s = h e s1"
  by (simp add: js_catch_def)

lemma js_catch_rethrow: "js_catch m js_throw s = m s"
proof (cases "m s")
  case (Pair r s1)
  then show ?thesis by (cases r) (simp_all add: js_catch_def js_throw_def)
qed

lemma js_catch_rethrow': "js_catch m (\<lambda>error. js_throw error) = m"
  by (rule ext) (rule js_catch_rethrow)

lemma js_bind_split_asm:
  "P (js_bind m f s) \<longleftrightarrow>
     \<not> ((\<exists>e s1. m s = (Inl e, s1) \<and> \<not> P (Inl e, s1)) \<or> (\<exists>x s1. m s = (Inr x, s1) \<and> \<not> P (f x s1)))"
  by (simp split: js_bind_split)

lemma js_catch_split_asm:
  "P (js_catch m h s) \<longleftrightarrow>
     \<not> ((\<exists>e s1. m s = (Inl e, s1) \<and> \<not> P (h e s1)) \<or> (\<exists>x s1. m s = (Inr x, s1) \<and> \<not> P (Inr x, s1)))"
  by (simp split: js_catch_split)

lemmas js_splits = js_bind_split js_bind_split_asm js_catch_split js_catch_split_asm

lemma log_error_callable [simp]: "log_error_callable ctx \<Longrightarrow> log_error ctx s = (Inr (), s)"
  by (simp add: log_error_def log_error_result_def)

lemma log_warn_callable [simp]: "log_warn_callable ctx \<Longrightarrow> log_warn ctx s = (Inr (), s)"
  by (simp add: log_warn_def log_warn_result_def)

lemma log_error_state [simp]: "snd (log_error ctx s) = s"
  by (simp add: log_error_def)

lemma log_warn_state [simp]: "snd (log_warn ctx s) = s"
  by (simp add: log_warn_def)

section \<open>Properties of the tag sync of survey-submission.js\<close>

lemma syncTagsToKit_payload_no_other:
  "rq \<in> set (snd (syncTagsToKit ctx env em tags)) \<Longrightarrow> t \<in> set (payload_tags rq)
     \<Longrightarrow> \<not> includesStr t ''_other''"
  by (auto simp: syncTagsToKit_def kitPayload_def validKitTags_def split: if_splits)

lemma startsWith_append: "startsWith (sub @ rest) sub"
  by (induction sub) auto

lemma includesStr_append: "includesStr (pre @ sub) sub"
proof (induction pre)
  case Nil
  show ?case using startsWith_append [of sub "[]"] by (cases sub) auto
next
  case (Cons c pre)
  then show ?case by simp
qed

lemma endsWith_includesStr: "endsWith s suf \<Longrightarrow> includesStr s suf"
proof -
  assume h: "endsWith s suf"
  then have "s = take (length s - length suf) s @ suf"
    by (metis append_take_drop_id endsWith_def)
  then show ?thesis by (metis includesStr_append)
qed

text \<open>
  No request is sent without the credential or without a tag left after the filter. The
  result is \<open>'skipped'\<close> when no tag is left; without the credential it is
  \<open>'skipped'\<close> only where \<open>context.log.warn\<close> is callable, and the \<open>TypeError\<close> of
  that call otherwise.
\<close>

lemma syncTagsToKit_no_request:
  "\<not> truthy (KIT_API_KEY env) \<or> validKitTags tags = [] \<Longrightarrow> snd (syncTagsToKit ctx env em tags) = []"
  by (auto simp: syncTagsToKit_def)

lemma syncTagsToKit_skipped:
  "\<not> truthy (KIT_API_KEY env) \<and> log_warn_callable ctx
     \<or> truthy (KIT_API_KEY env) \<and> validKitTags tags = [] \<Longrightarrow>
   \<exists>r. fst (syncTagsToKit ctx env em tags) = Inr r \<and> ks_status r = ''skipped''"
  by (auto simp: syncTagsToKit_def kit_plain_def log_warn_result_def)

lemma syncTagsToKit_warn_throws:
  "\<not> truthy (KIT_API_KEY env) \<Longrightarrow> \<not> log_warn_callable ctx \<Longrightarrow>
   fst (syncTagsToKit ctx env em tags) = Inl (TypeError ''context.log.warn is not a function'')"
  by (simp add: syncTagsToKit_def log_warn_result_def)

section \<open>Properties of the tag store\<close>

lemma tag_key_entity [simp]: "tag_key (tag_entity_of env em t) = (toLowerCase em, t)"
  by (simp add: tag_key_def tag_entity_of_def)

lemma saveUserTag_ok:
  "upsertEntity_error env t = None \<Longrightarrow>
   saveUserTag ctx env em t s =
     (Inr \<lparr>tr_tag = t, tr_status = ''success'', tr_error = None\<rparr>,
      (record_call (UpsertEntity (toLowerCase em) t) s)
        \<lparr>userTagsTable := upsertEntity (tag_entity_of env em t) (userTagsTable s)\<rparr>)"
  by (simp add: saveUserTag_def js_catch_def js_bind_def upsertEntity_call_def Let_def
        js_return_def tag_entity_of_def record_call_def)

text \<open>A run whose upserts do not throw: every tag is saved and nothing is logged as an error.\<close>

lemma saveUserTags_all_ok:
  "\<forall>t\<in>set tags. upsertEntity_error env t = None \<Longrightarrow>
   \<exists>s1. saveUserTags_all ctx env em tags s
           = (Inr (Inr (map (\<lambda>t. \<lparr>tr_tag = t, tr_status = ''success'', tr_error = None\<rparr>) tags)), s1)
        \<and> userTagsTable s1 = upsert_all env em tags (userTagsTable s)
        \<and> surveyResponsesTable s1 = surveyResponsesTable s"
proof (induction tags arbitrary: s)
  case Nil
  then show ?case by (simp add: upsert_all_def js_return_def)
next
  case (Cons t ts)
  let ?s1 = "(record_call (UpsertEntity (toLowerCase em) t) s)
        \<lparr>userTagsTable := upsertEntity (tag_entity_of env em t) (userTagsTable s)\<rparr>"
  have a: "saveUserTag ctx env em t s =
     (Inr \<lparr>tr_tag = t, tr_status = ''success'', tr_error = None\<rparr>, ?s1)"
    using Cons.prems by (simp add: saveUserTag_ok)
  have "\<forall>t\<in>set ts. upsertEntity_error env t = None" using Cons.prems by simp
  from Cons.IH [OF this, of ?s1]
  obtain s2 where b: "saveUserTags_all ctx env em ts ?s1
           = (Inr (Inr (map (\<lambda>t. \<lparr>tr_tag = t, tr_status = ''success'', tr_error = None\<rparr>) ts)), s2)"
    and c: "userTagsTable s2 = upsert_all env em ts (userTagsTable ?s1)"
    and d: "surveyResponsesTable s2 = surveyResponsesTable ?s1"
    by blast
  show ?case
    using a b c d
    by (simp add: js_bind_def js_attempt_def js_return_def upsert_all_def record_call_def)
qed

lemma saveUserTags_ok:
  assumes ok: "\<forall>t\<in>set tags. upsertEntity_error env t = None"
  shows "\<exists>s1. saveUserTags ctx env em tags s
           = (Inr \<lparr>totalTags = length tags, successCount = length tags, failedCount = 0,
                   failedTags = []\<rparr>, s1)
        \<and> userTagsTable s1 = upsert_all env em tags (userTagsTable s)
        \<and> surveyResponsesTable s1 = surveyResponsesTable s"
proof -
  let ?rs = "map (\<lambda>t. \<lparr>tr_tag = t, tr_status = ''success'', tr_error = None\<rparr>) tags"
  obtain s1 where a: "saveUserTags_all ctx env em tags s = (Inr (Inr ?rs), s1)"
    and b: "userTagsTable s1 = upsert_all env em tags (userTagsTable s)"
    and c: "surveyResponsesTable s1 = surveyResponsesTable s"
    using saveUserTags_all_ok [OF ok] by blast
  have f: "filter (\<lambda>r. tr_status r = ''failed'') ?rs = []"
    by (induction tags) simp_all
  have g: "filter (\<lambda>r. tr_status r = ''success'') ?rs = ?rs"
    by (induction tags) simp_all
  have "saveUserTags ctx env em tags s
           = (Inr \<lparr>totalTags = length tags, successCount = length tags, failedCount = 0,
                   failedTags = []\<rparr>, s1)"
    using a by (simp add: saveUserTags_def js_bind_def js_return_def f g)
  then show ?thesis using b c by blast
qed

lemma saveUserTags_table:
  "\<forall>t\<in>set tags. upsertEntity_error env t = None \<Longrightarrow>
   userTagsTable (snd (saveUserTags ctx env em tags s)) = upsert_all env em tags (userTagsTable s)"
  using saveUserTags_ok [of tags env ctx em s] by auto

lemma filter_upsertEntity:
  assumes "t_partitionKey e = pk"
  shows "filter (\<lambda>r. t_partitionKey r = pk) (upsertEntity e tbl)
           = upsertEntity e (filter (\<lambda>r. t_partitionKey r = pk) tbl)"
proof -
  have same: "\<And>x. tag_key x = tag_key e \<Longrightarrow> t_partitionKey x = pk"
    using assms by (simp add: tag_key_def)
  have mem: "tag_key e \<in> set (map tag_key (filter (\<lambda>r. t_partitionKey r = pk) tbl))
               \<longleftrightarrow> tag_key e \<in> set (map tag_key tbl)"
    using same by auto
  have rep: "filter (\<lambda>r. t_partitionKey r = pk) (map (\<lambda>x. if tag_key x = tag_key e then e else x) tbl)
               = map (\<lambda>x. if tag_key x = tag_key e then e else x) (filter (\<lambda>r. t_partitionKey r = pk) tbl)"
    using same assms by (induction tbl) auto
  show ?thesis
    unfolding upsertEntity_def List.member_iff mem using rep assms by simp
qed

lemma tag_rows_upsert_all:
  "filter (\<lambda>r. t_partitionKey r = toLowerCase em) (upsert_all env em tags tbl)
     = upsert_all env em tags (filter (\<lambda>r. t_partitionKey r = toLowerCase em) tbl)"
proof (induction tags arbitrary: tbl)
  case Nil
  then show ?case by (simp add: upsert_all_def)
next
  case (Cons t ts)
  have "t_partitionKey (tag_entity_of env em t) = toLowerCase em"
    by (simp add: tag_entity_of_def)
  from filter_upsertEntity [OF this] Cons show ?case
    by (simp add: upsert_all_def)
qed

lemma upsert_all_first_run:
  "distinct (pre @ tags) \<Longrightarrow>
   upsert_all env em tags (map (tag_entity_of env em) pre) = map (tag_entity_of env em) (pre @ tags)"
proof (induction tags arbitrary: pre)
  case Nil
  then show ?case by (simp add: upsert_all_def)
next
  case (Cons t ts)
  have fresh: "tag_key (tag_entity_of env em t) \<notin> set (map tag_key (map (tag_entity_of env em) pre))"
    using Cons.prems by auto
  have step: "upsertEntity (tag_entity_of env em t) (map (tag_entity_of env em) pre)
                = map (tag_entity_of env em) (pre @ [t])"
    using fresh by (simp add: upsertEntity_def)
  have "distinct ((pre @ [t]) @ ts)" using Cons.prems by simp
  from Cons.IH [OF this] step show ?case by (simp add: upsert_all_def)
qed

lemma upsert_all_second_run:
  "distinct (pre @ tags) \<Longrightarrow>
   upsert_all env2 em tags (map (tag_entity_of env2 em) pre @ map (tag_entity_of env1 em) tags)
     = map (tag_entity_of env2 em) (pre @ tags)"
proof (induction tags arbitrary: pre)
  case Nil
  then show ?case by (simp add: upsert_all_def)
next
  case (Cons t ts)
  have d: "t \<notin> set pre" "t \<notin> set ts" using Cons.prems by auto
  have step: "upsertEntity (tag_entity_of env2 em t)
                (map (tag_entity_of env2 em) pre @ map (tag_entity_of env1 em) (t # ts))
              = map (tag_entity_of env2 em) (pre @ [t]) @ map (tag_entity_of env1 em) ts"
    using d by (auto simp: upsertEntity_def)
  have "distinct ((pre @ [t]) @ ts)" using Cons.prems by simp
  from Cons.IH [OF this] step show ?case by (simp add: upsert_all_def)
qed

lemma upsertEntity_existing_keys:
  "tag_key e \<in> set (map tag_key tbl) \<Longrightarrow> map tag_key (upsertEntity e tbl) = map tag_key tbl"
  by (induction tbl) (auto simp: upsertEntity_def)

lemma upsert_all_existing_keys:
  "\<forall>t\<in>set tags. (toLowerCase em, t) \<in> set (map tag_key tbl) \<Longrightarrow>
   map tag_key (upsert_all env em tags tbl) = map tag_key tbl"
proof (induction tags arbitrary: tbl)
  case Nil
  then show ?case by (simp add: upsert_all_def)
next
  case (Cons t ts)
  have k: "map tag_key (upsertEntity (tag_entity_of env em t) tbl) = map tag_key tbl"
    using Cons.prems by (intro upsertEntity_existing_keys) simp
  have "\<forall>u\<in>set ts. (toLowerCase em, u) \<in> set (map tag_key tbl)"
    using Cons.prems by simp
  then have "\<forall>u\<in>set ts. (toLowerCase em, u) \<in> set (map tag_key (upsertEntity (tag_entity_of env em t) tbl))"
    unfolding k .
  from Cons.IH [OF this] k show ?case by (simp add: upsert_all_def)
qed

text \<open>
  Claim C4. For an email without tag records and n distinct tag names, two runs of
  \<open>saveUserTags\<close> whose upserts succeed leave exactly the n records of the second
  run for that email, one per (email, tag) key and no key twice; the second run creates
  no record (the keys of the table are those after the first run) and every record
  carries the timestamp of the second run.
\<close>

theorem saveUserTags_twice:
  assumes dist: "distinct tags"
    and ok1: "\<forall>t\<in>set tags. upsertEntity_error env1 t = None"
    and ok2: "\<forall>t\<in>set tags. upsertEntity_error env2 t = None"
    and none: "tag_rows em s = []"
    and run1: "s1 = snd (saveUserTags ctx env1 em tags s)"
    and run2: "s2 = snd (saveUserTags ctx env2 em tags s1)"
  shows "tag_rows em s2 = map (tag_entity_of env2 em) tags
       \<and> length (tag_rows em s2) = length tags
       \<and> distinct (map tag_key (tag_rows em s2))
       \<and> map tag_key (userTagsTable s2) = map tag_key (userTagsTable s1)
       \<and> (\<forall>r\<in>set (tag_rows em s2). t_createdAt r = tag_now env2 (t_tagName r))"
proof -
  have t1: "userTagsTable s1 = upsert_all env1 em tags (userTagsTable s)"
    using run1 saveUserTags_table [OF ok1] by simp
  have t2: "userTagsTable s2 = upsert_all env2 em tags (userTagsTable s1)"
    using run2 saveUserTags_table [OF ok2] by simp
  have r1: "tag_rows em s1 = map (tag_entity_of env1 em) tags"
    using none upsert_all_first_run [of "[]" tags env1 em] dist
    by (simp add: tag_rows_def t1 tag_rows_upsert_all)
  have r2: "tag_rows em s2 = map (tag_entity_of env2 em) tags"
    using r1 upsert_all_second_run [of "[]" tags env2 em env1] dist
    by (simp add: tag_rows_def t2 tag_rows_upsert_all)
  have "\<forall>t\<in>set tags. (toLowerCase em, t) \<in> set (map tag_key (tag_rows em s1))"
    unfolding r1 by (auto simp: image_iff)
  then have "\<forall>t\<in>set tags. (toLowerCase em, t) \<in> set (map tag_key (userTagsTable s1))"
    by (auto simp: tag_rows_def)
  then have keys: "map tag_key (userTagsTable s2) = map tag_key (userTagsTable s1)"
    unfolding t2 by (rule upsert_all_existing_keys)
  have dk: "distinct (map tag_key (tag_rows em s2))"
    unfolding r2 using dist by (simp add: distinct_map inj_on_def comp_def)
  have ts: "\<forall>r\<in>set (tag_rows em s2). t_createdAt r = tag_now env2 (t_tagName r)"
    unfolding r2 by (auto simp: tag_entity_of_def)
  show ?thesis using r2 keys dk ts by simp
qed

text \<open>
  Witness for C4: two tags upserted twice for one email, the second time at a later
  moment; the two records carry the later timestamp.
\<close>

theorem saveUserTags_twice_witness:
  "map t_createdAt (tag_rows ''Al@Example.com''
      (snd (saveUserTags v4_context later_env ''Al@Example.com'' [''pop_adults'', ''pop_couples'']
         (snd (saveUserTags v4_context sample_env ''Al@Example.com'' [''pop_adults'', ''pop_couples'']
                 fresh_state))))) = [9, 9]"
proof -
  have d: "distinct [''pop_adults'', ''pop_couples'']" by simp
  have ok1: "\<forall>t\<in>set [''pop_adults'', ''pop_couples'']. upsertEntity_error sample_env t = None"
    by (simp add: sample_env_def)
  have ok2: "\<forall>t\<in>set [''pop_adults'', ''pop_couples'']. upsertEntity_error later_env t = None"
    by (simp add: sample_env_def later_env_def)
  have none: "tag_rows ''Al@Example.com'' fresh_state = []"
    by (simp add: tag_rows_def fresh_state_def)
  from saveUserTags_twice [OF d ok1 ok2 none refl refl]
  show ?thesis by (simp add: tag_entity_of_def later_env_def)
qed


section \<open>Properties of the handler of survey-submission.js\<close>

text \<open>
  The rejections of the handler return their 400 where \<open>context.log.error\<close> is
  callable; where it is not, the logging call that precedes the \<open>return\<close> throws, the
  outermost \<open>catch\<close> throws from its own logging call, and the handler rejects.
\<close>

lemma createTable_effect:
  "createTable env t s = (r, s1) \<Longrightarrow> s1 = record_call (CreateTable t) s"
  by (auto simp: createTable_def createTable_call_def js_throw_def js_return_def
        split: js_splits option.splits if_splits)

lemma ensureInitialized_effect:
  assumes "ensureInitialized env s = (r, s1)"
  shows "surveyResponsesTable s1 = surveyResponsesTable s
       \<and> userTagsTable s1 = userTagsTable s
       \<and> idCount s1 = idCount s
       \<and> filter is_write (calls s1) = filter is_write (calls s)
       \<and> filter is_fetch (calls s1) = filter is_fetch (calls s)"
  using assms
  by (auto simp: ensureInitialized_def initializeTableClients_def ensureTablesExist_def
        record_call_def
      split: if_splits js_splits dest!: createTable_effect)

lemma surveySubmission_invalid_json:
  "rq_method rq \<noteq> ''OPTIONS'' \<Longrightarrow> rq_body rq = None \<Longrightarrow>
   surveySubmission validate ctx env rq s
     = (if log_error_callable ctx
        then Inr (createErrorResponse 400 ''Invalid JSON in request body'' NoDetails)
        else Inl (TypeError ''context.log.error is not a function''), s)"
  by (simp add: surveySubmission_def process_def js_return_def js_bind_def js_catch_def
        log_error_def log_error_result_def)

lemma surveySubmission_validation_failed:
  "rq_method rq \<noteq> ''OPTIONS'' \<Longrightarrow> rq_body rq = Some b \<Longrightarrow> validate b = Inl ds \<Longrightarrow>
   surveySubmission validate ctx env rq s
     = (if log_error_callable ctx
        then Inr (createErrorResponse 400 ''Validation failed''
                    (ValidationErrors (map validation_entry_of ds)))
        else Inl (TypeError ''context.log.error is not a function''), s)"
  by (simp add: surveySubmission_def process_def js_return_def js_bind_def js_catch_def
        log_error_def log_error_result_def)

lemma surveySubmission_init_failed:
  "rq_method rq \<noteq> ''OPTIONS'' \<Longrightarrow> rq_body rq = Some b \<Longrightarrow> validate b = Inr v \<Longrightarrow>
   ensureInitialized env s = (Inl e, s0) \<Longrightarrow>
   surveySubmission validate ctx env rq s
     = (if log_error_callable ctx
        then Inr (createErrorResponse 500 ''Internal server error'' NoDetails)
        else Inl (TypeError ''context.log.error is not a function''), s0)"
  by (simp add: surveySubmission_def process_def js_return_def js_bind_def js_catch_def
        log_error_def log_error_result_def)

lemma surveySubmission_invalid_tags:
  "rq_method rq \<noteq> ''OPTIONS'' \<Longrightarrow> rq_body rq = Some b \<Longrightarrow> validate b = Inr v \<Longrightarrow>
   ensureInitialized env s = (Inr u, s0) \<Longrightarrow> invalidTags (selectedTags v) \<noteq> [] \<Longrightarrow>
   surveySubmission validate ctx env rq s
     = (if log_error_callable ctx
        then Inr (createErrorResponse 400 ''Invalid tags detected''
                    (InvalidTags (invalidTags (selectedTags v))))
        else Inl (TypeError ''context.log.error is not a function''), s0)"
  by (simp add: surveySubmission_def process_def js_return_def js_bind_def js_catch_def
        log_error_def log_error_result_def)

text \<open>
  A tag outside the catalog, in a body the schema accepts: whatever table initialisation
  and logging do, no entity is written and both tables stay as they were.
\<close>

lemma invalid_tags_no_writes:
  assumes "rq_method rq \<noteq> ''OPTIONS''" and "rq_body rq = Some b" and "validate b = Inr v"
    and "invalidTags (selectedTags v) \<noteq> []"
  shows "surveyResponsesTable (snd (surveySubmission validate ctx env rq s)) = surveyResponsesTable s
       \<and> userTagsTable (snd (surveySubmission validate ctx env rq s)) = userTagsTable s
       \<and> filter is_write (calls (snd (surveySubmission validate ctx env rq s)))
           = filter is_write (calls s)"
proof -
  obtain r0 s0 where init: "ensureInitialized env s = (r0, s0)"
    by (cases "ensureInitialized env s")
  note eff = ensureInitialized_effect [OF init]
  show ?thesis
  proof (cases r0)
    case (Inl e)
    then show ?thesis
      using assms init eff by (simp add: surveySubmission_init_failed)
  next
    case (Inr u)
    then show ?thesis
      using assms init eff by (simp add: surveySubmission_invalid_tags)
  qed
qed

text \<open>
  Where \<open>context.log.error\<close> is callable the handler returns a response for every
  request, and a response it returns to a POST has status 200, 400 or 500, with
  \<open>success\<close> true exactly for 200.
\<close>

lemma surveySubmission_returns:
  "log_error_callable ctx \<Longrightarrow> \<exists>r s1. surveySubmission validate ctx env rq s = (Inr r, s1)"
  by (auto simp: surveySubmission_def js_bind_def js_return_def split: js_catch_split)

lemma persist_status:
  "persist ctx env v s = (Inr r, s1) \<Longrightarrow>
   status r \<in> {200, 500} \<and> success (body r) = Some (status r = 200)"
  by (auto simp: persist_def js_return_def createErrorResponse_def createSuccessResponse_def
        split: js_bind_split_asm sum.splits)

lemma process_status:
  "process validate ctx env rq s = (Inr r, s1) \<Longrightarrow>
   status r \<in> {200, 400, 500} \<and> success (body r) = Some (status r = 200)"
  by (auto simp: process_def js_return_def createErrorResponse_def
        split: js_bind_split_asm option.splits sum.splits if_splits dest!: persist_status)

lemma surveySubmission_status:
  "rq_method rq \<noteq> ''OPTIONS'' \<Longrightarrow> surveySubmission validate ctx env rq s = (Inr r, s1) \<Longrightarrow>
   status r \<in> {200, 400, 500} \<and> success (body r) = Some (status r = 200)"
  by (auto simp: surveySubmission_def js_return_def createErrorResponse_def
        split: js_catch_split_asm js_bind_split_asm dest!: process_status)


text \<open>
  The row key used for the status update is never the stored one:
  \<open>surveyResponseResult.rowKey\<close> is undefined, so \<open>generateId()\<close> is called again.
\<close>

lemma surveyRowKey_made_up: "surveyRowKey_of env surveyResponseResult = generateId_step env"
  by (simp add: surveyRowKey_of_def rowKey_property_def truthy_def)

lemma saveUserTag_returns:
  "log_error_callable ctx \<Longrightarrow> \<exists>r s1. saveUserTag ctx env em t s = (Inr r, s1)"
  by (auto simp: saveUserTag_def js_return_def split: js_catch_split js_bind_split)

lemma saveUserTags_all_returns:
  "log_error_callable ctx \<Longrightarrow> \<exists>rs s1. saveUserTags_all ctx env em tags s = (Inr (Inr rs), s1)"
proof (induction tags arbitrary: s)
  case Nil
  then show ?case by (simp add: js_return_def)
next
  case (Cons t ts)
  obtain r s1 where a: "saveUserTag ctx env em t s = (Inr r, s1)"
    using saveUserTag_returns [OF Cons.prems] by blast
  obtain rs s2 where b: "saveUserTags_all ctx env em ts s1 = (Inr (Inr rs), s2)"
    using Cons by blast
  show ?case using a b by (simp add: js_bind_def js_attempt_def js_return_def)
qed

lemma saveUserTags_returns:
  assumes "log_error_callable ctx"
  shows "\<exists>r s1. saveUserTags ctx env em tags s = (Inr r, s1)"
proof -
  obtain rs s1 where a: "saveUserTags_all ctx env em tags s = (Inr (Inr rs), s1)"
    using saveUserTags_all_returns [OF assms] by blast
  show ?thesis using a assms by (simp add: saveUserTags_def js_bind_def js_return_def)
qed

lemma updateKitSyncStatus_returns:
  "log_error_callable ctx \<Longrightarrow> \<exists>s1. updateKitSyncStatus ctx env em rowKey st s = (Inr (), s1)"
  by (auto simp: updateKitSyncStatus_def split: js_catch_split)

lemma kitSyncStep_returns:
  assumes "log_error_callable ctx"
  shows "\<exists>k s1. kitSyncStep ctx env v rowKey s = (Inr k, s1)"
proof -
  obtain r s0 where sync: "syncTagsToKit_step ctx env (email v) (selectedTags v) s = (r, s0)"
    by (cases "syncTagsToKit_step ctx env (email v) (selectedTags v) s")
  show ?thesis
  proof (cases r)
    case (Inl e)
    obtain s1 where "updateKitSyncStatus ctx env (email v) rowKey ''failed'' s0 = (Inr (), s1)"
      using updateKitSyncStatus_returns [OF assms] by blast
    then show ?thesis
      using sync Inl assms by (simp add: kitSyncStep_def js_catch_def js_bind_def js_return_def)
  next
    case (Inr kitSyncResult)
    obtain s1 where
      "updateKitSyncStatus ctx env (email v) rowKey (ks_status kitSyncResult) s0 = (Inr (), s1)"
      using updateKitSyncStatus_returns [OF assms] by blast
    then show ?thesis
      using sync Inr by (simp add: kitSyncStep_def js_catch_def js_bind_def js_return_def)
  qed
qed

text \<open>
  Where \<open>context.log.error\<close> is callable, a submission whose record has been stored is
  answered with the 200, whatever the tag upserts, the Kit call and the status update
  do.
\<close>

lemma stored_submission_is_success:
  assumes "rq_method rq \<noteq> ''OPTIONS''" and "rq_body rq = Some b" and "validate b = Inr v"
    and "ensureInitialized env s = (Inr u, s0)"
    and "invalidTags (selectedTags v) = []"
    and "saveSurveyResponse ctx env v s0 = (Inr h, s1)"
    and "log_error_callable ctx"
  shows "\<exists>d s2. surveySubmission validate ctx env rq s = (Inr (createSuccessResponse d), s2)"
proof -
  obtain k s2 where key: "surveyRowKey_of env h s1 = (Inr k, s2)"
    by (simp add: surveyRowKey_made_up generateId_step_def)
  obtain tr s3 where tags: "saveUserTags ctx env (email v) (selectedTags v) s2 = (Inr tr, s3)"
    using saveUserTags_returns [OF assms(7)] by blast
  obtain kr s4 where kit: "kitSyncStep ctx env v k s3 = (Inr kr, s4)"
    using kitSyncStep_returns [OF assms(7)] by blast
  have "persist ctx env v s0 = (Inr (createSuccessResponse (responseData v tr kr)), s4)"
    using assms(6) key tags kit
    by (simp add: persist_def js_bind_def js_attempt_def js_return_def)
  then show ?thesis
    using assms(1-5) by (auto simp: surveySubmission_def process_def js_bind_def js_catch_def)
qed


lemma surveySubmission_responds:
  assumes "log_error_callable ctx" and "rq_method rq = ''POST''"
  shows "\<exists>r s1. surveySubmission validate ctx env rq s = (Inr r, s1)
           \<and> status r \<in> {200, 400, 500} \<and> success (body r) = Some (status r = 200)"
proof -
  obtain r s1 where a: "surveySubmission validate ctx env rq s = (Inr r, s1)"
    using surveySubmission_returns [OF assms(1)] by blast
  have "rq_method rq \<noteq> ''OPTIONS''" using assms(2) by simp
  from surveySubmission_status [OF this a] a show ?thesis by blast
qed

text \<open>
  Where \<open>context.log.error\<close> is not callable, an exception that reaches the outermost
  \<open>catch\<close> is replaced by the \<open>TypeError\<close> of the logging call, which leaves the
  handler.
\<close>

lemma surveySubmission_catch_throws:
  "rq_method rq \<noteq> ''OPTIONS'' \<Longrightarrow> \<not> log_error_callable ctx \<Longrightarrow>
   process validate ctx env rq s = (Inl e, s1) \<Longrightarrow>
   surveySubmission validate ctx env rq s
     = (Inl (TypeError ''context.log.error is not a function''), s1)"
  by (simp add: surveySubmission_def js_catch_def js_bind_def log_error_def log_error_result_def)

section \<open>Properties of the second handler\<close>

lemma svc_getTableClient_throws:
  "svc_getTableClient env s = (r, s1) \<Longrightarrow>
   (\<exists>e. r = Inl e) \<and> subscribers s1 = subscribers s \<and> surveyresponses s1 = surveyresponses s
     \<and> svc_calls s1 = svc_calls s"
  by (auto simp: svc_getTableClient_def svc_initializeTableClient_def js_throw_def
        split: js_bind_split_asm if_splits)

lemma svc_storage_effect:
  "svc_storage env c s = (r, s1) \<Longrightarrow>
   subscribers s1 = subscribers s \<and> surveyresponses s1 = surveyresponses s
     \<and> svc_calls s1 = svc_calls s @ [c]"
  by (auto simp: svc_storage_def split: option.splits)

lemma svc_ensureTablesExist_effect:
  "svc_ensureTablesExist env s = (r, s1) \<Longrightarrow>
   subscribers s1 = subscribers s \<and> surveyresponses s1 = surveyresponses s
     \<and> filter svc_is_write (svc_calls s1) = filter svc_is_write (svc_calls s)"
  by (auto simp: svc_ensureTablesExist_def svc_initializeTableClient_def js_return_def
        split: js_bind_split_asm js_catch_split_asm if_splits dest!: svc_storage_effect)

text \<open>
  The second handler on a body that \<open>surveySchema\<close> accepts: \<open>getSubscriberByEmail\<close>
  throws from \<open>getTableClient\<close> (or \<open>ensureTablesExist\<close> throws before it), so the
  request ends in the handler's \<open>catch\<close> with nothing written.
\<close>

lemma svc_process_accepted_throws:
  assumes "rq_body rq = Some b" and "validate b = Inr v"
  shows "\<exists>e s1. svc_process validate ctx env rq s = (Inl e, s1)
           \<and> subscribers s1 = subscribers s \<and> surveyresponses s1 = surveyresponses s
           \<and> filter svc_is_write (svc_calls s1) = filter svc_is_write (svc_calls s)"
proof -
  obtain r0 s0 where ens: "svc_ensureTablesExist env s = (r0, s0)"
    by (cases "svc_ensureTablesExist env s")
  note eff = svc_ensureTablesExist_effect [OF ens]
  show ?thesis
  proof (cases r0)
    case (Inl e)
    then show ?thesis using assms ens eff by (simp add: svc_process_def js_bind_def)
  next
    case (Inr u)
    obtain r1 s1 where cl: "svc_getTableClient env s0 = (r1, s1)"
      by (cases "svc_getTableClient env s0")
    from svc_getTableClient_throws [OF cl] obtain e where e: "r1 = Inl e"
      and st: "subscribers s1 = subscribers s0" "surveyresponses s1 = surveyresponses s0"
              "svc_calls s1 = svc_calls s0"
      by blast
    have "svc_getSubscriberByEmail env (email v) s0 = (Inl e, s1)"
      using cl e by (simp add: svc_getSubscriberByEmail_def js_bind_def)
    then have "svc_process validate ctx env rq s = (Inl e, s1)"
      using assms ens Inr by (simp add: svc_process_def js_bind_def)
    then show ?thesis using eff st by simp
  qed
qed

lemma svc_surveySubmission_accepted_fails:
  assumes "rq_method rq \<noteq> ''OPTIONS''" and "rq_body rq = Some b" and "validate b = Inr v"
  shows "fst (svc_surveySubmission validate ctx env rq s)
           = (if log_error_callable ctx
              then Inr \<lparr>svc_status = 500, svc_body = SvcInternalError\<rparr>
              else Inl (TypeError ''context.log.error is not a function''))"
proof -
  obtain e s1 where "svc_process validate ctx env rq s = (Inl e, s1)"
    using svc_process_accepted_throws [where validate = validate and b = b, OF assms(2,3)]
    by blast
  then show ?thesis
    using assms(1)
    by (simp add: svc_surveySubmission_def js_catch_def js_bind_def js_return_def
          log_error_def log_error_result_def)
qed


section \<open>The stored \<open>completed\<close> flag\<close>

lemma keeps_completedI:
  "(\<And>s. all_completed s \<Longrightarrow> all_completed (snd (m s))) \<Longrightarrow> keeps_completed m"
  by (simp add: keeps_completed_def)

lemma keeps_completedD:
  "keeps_completed m \<Longrightarrow> all_completed s \<Longrightarrow> all_completed (snd (m s))"
  by (simp add: keeps_completed_def)

lemma keeps_return: "keeps_completed (js_return x)"
  by (simp add: keeps_completed_def js_return_def)

lemma keeps_throw: "keeps_completed (js_throw e)"
  by (simp add: keeps_completed_def js_throw_def)

lemma keeps_settle: "keeps_completed (js_settle r)"
  by (cases r) (simp_all add: keeps_return keeps_throw)

lemma keeps_log_error: "keeps_completed (log_error ctx)"
  by (simp add: keeps_completed_def)

lemma keeps_log_warn: "keeps_completed (log_warn ctx)"
  by (simp add: keeps_completed_def)

lemma keeps_bind:
  assumes m: "keeps_completed m" and f: "\<And>x. keeps_completed (f x)"
  shows "keeps_completed (js_bind m f)"
proof (rule keeps_completedI)
  fix s assume inv: "all_completed s"
  obtain r s1 where ms: "m s = (r, s1)" by (cases "m s")
  have s1: "all_completed s1" using keeps_completedD [OF m inv] ms by simp
  show "all_completed (snd (js_bind m f s))"
  proof (cases r)
    case (Inl e)
    then show ?thesis using ms s1 by (simp add: js_bind_def)
  next
    case (Inr x)
    then show ?thesis using ms keeps_completedD [OF f s1, of x] by (simp add: js_bind_def)
  qed
qed

lemma keeps_catch:
  assumes m: "keeps_completed m" and h: "\<And>e. keeps_completed (h e)"
  shows "keeps_completed (js_catch m h)"
proof (rule keeps_completedI)
  fix s assume inv: "all_completed s"
  obtain r s1 where ms: "m s = (r, s1)" by (cases "m s")
  have s1: "all_completed s1" using keeps_completedD [OF m inv] ms by simp
  show "all_completed (snd (js_catch m h s))"
  proof (cases r)
    case (Inl e)
    then show ?thesis using ms keeps_completedD [OF h s1, of e] by (simp add: js_catch_def)
  next
    case (Inr x)
    then show ?thesis using ms s1 by (simp add: js_catch_def)
  qed
qed

lemma keeps_attempt: "keeps_completed m \<Longrightarrow> keeps_completed (js_attempt m)"
  by (simp add: keeps_completed_def js_attempt_eq)

lemma keeps_createTable_call: "keeps_completed (createTable_call env t)"
  by (simp add: keeps_completed_def createTable_call_def record_call_def all_completed_def
        split: option.splits)

lemma keeps_createEntity_call:
  "r_completed entity \<Longrightarrow> keeps_completed (createEntity_call env entity)"
  by (simp add: keeps_completed_def createEntity_call_def record_call_def all_completed_def
        Let_def split: option.splits)

lemma keeps_upsertEntity_call: "keeps_completed (upsertEntity_call env entity)"
  by (simp add: keeps_completed_def upsertEntity_call_def record_call_def all_completed_def
        Let_def split: option.splits)

lemma mergeSyncStatus_completed:
  "list_all r_completed tbl \<Longrightarrow> list_all r_completed (mergeSyncStatus k st at tbl)"
  by (induction tbl) (simp_all add: mergeSyncStatus_def)

lemma keeps_updateEntity_call: "keeps_completed (updateEntity_call env k st at)"
  by (simp add: keeps_completed_def updateEntity_call_def record_call_def all_completed_def
        Let_def mergeSyncStatus_completed split: option.splits)

lemma keeps_initializeTableClients: "keeps_completed (initializeTableClients env)"
  by (simp add: keeps_completed_def initializeTableClients_def all_completed_def)

lemma keeps_generateId_step: "keeps_completed (generateId_step env)"
  by (simp add: keeps_completed_def generateId_step_def all_completed_def)

lemma keeps_syncTagsToKit_step: "keeps_completed (syncTagsToKit_step ctx env em tags)"
  by (simp add: keeps_completed_def syncTagsToKit_step_def all_completed_def split_def)

lemma keeps_createTable: "keeps_completed (createTable env t)"
  unfolding createTable_def
  by (intro keeps_catch keeps_createTable_call) (simp add: keeps_throw keeps_return)

lemma keeps_ensureTablesExist: "keeps_completed (ensureTablesExist env)"
  unfolding ensureTablesExist_def by (intro keeps_bind keeps_createTable)

lemma keeps_ensureInitialized: "keeps_completed (ensureInitialized env)"
proof (rule keeps_completedI)
  fix s assume inv: "all_completed s"
  have "keeps_completed (js_bind (initializeTableClients env) (\<lambda>u. ensureTablesExist env))"
    by (intro keeps_bind keeps_initializeTableClients keeps_ensureTablesExist)
  from keeps_completedD [OF this inv] inv
  show "all_completed (snd (ensureInitialized env s))"
    by (simp add: ensureInitialized_def)
qed

lemma keeps_updateKitSyncStatus: "keeps_completed (updateKitSyncStatus ctx env em rowKey st)"
  unfolding updateKitSyncStatus_def
  by (intro keeps_catch keeps_updateEntity_call keeps_log_error)

lemma response_entity_completed: "r_completed (response_entity_of env v rowKey)"
  by (simp add: response_entity_of_def)

lemma keeps_saveSurveyResponse: "keeps_completed (saveSurveyResponse ctx env v)"
  unfolding saveSurveyResponse_def
  by (intro keeps_bind keeps_catch keeps_generateId_step keeps_createEntity_call
        response_entity_completed keeps_log_error keeps_throw)

lemma keeps_surveyRowKey_of: "keeps_completed (surveyRowKey_of env r)"
  by (simp add: surveyRowKey_of_def keeps_return keeps_generateId_step)

lemma keeps_saveUserTag: "keeps_completed (saveUserTag ctx env em t)"
  unfolding saveUserTag_def
  by (intro keeps_bind keeps_catch keeps_upsertEntity_call keeps_log_error keeps_return)

lemma keeps_saveUserTags_all: "keeps_completed (saveUserTags_all ctx env em tags)"
proof (induction tags)
  case Nil
  show ?case by (simp add: keeps_return)
next
  case (Cons t ts)
  show ?case
    unfolding saveUserTags_all.simps
    by (intro keeps_bind keeps_attempt keeps_saveUserTag Cons keeps_return)
qed

lemma keeps_saveUserTags: "keeps_completed (saveUserTags ctx env em tags)"
proof -
  have a: "keeps_completed (js_bind (saveUserTags_all ctx env em tags) js_settle)"
    by (intro keeps_bind keeps_saveUserTags_all keeps_settle)
  have b: "\<And>c. keeps_completed (if c then log_error ctx else js_return ())"
    by (simp add: keeps_log_error keeps_return)
  show ?thesis
    unfolding saveUserTags_def by (intro keeps_bind a b keeps_return)
qed

lemma keeps_kitSyncStep: "keeps_completed (kitSyncStep ctx env v surveyRowKey)"
  unfolding kitSyncStep_def
  by (intro keeps_bind keeps_catch keeps_syncTagsToKit_step keeps_updateKitSyncStatus
        keeps_log_error keeps_return)

lemma keeps_persist: "keeps_completed (persist ctx env v)"
proof -
  have kit: "\<And>k t. keeps_completed
      (js_bind (kitSyncStep ctx env v k) (\<lambda>kitSyncResult.
         js_return (createSuccessResponse (responseData v t kitSyncResult))))"
    by (intro keeps_bind keeps_kitSyncStep keeps_return)
  have err: "\<And>r. keeps_completed (js_bind (log_error ctx) (\<lambda>u. js_return r))"
    by (intro keeps_bind keeps_log_error keeps_return)
  have tagged: "\<And>surveyRowKey tagged. keeps_completed
      (case tagged of
         Inl error \<Rightarrow>
           js_bind (log_error ctx) (\<lambda>u.
             js_return (createErrorResponse 500 ''Failed to save user tags''
                          (ErrorText (error_message error))))
       | Inr tagSaveResults \<Rightarrow>
           js_bind (kitSyncStep ctx env v surveyRowKey) (\<lambda>kitSyncResult.
             js_return (createSuccessResponse (responseData v tagSaveResults kitSyncResult))))"
    by (simp add: kit err split: sum.splits)
  have tags: "\<And>surveyRowKey. keeps_completed
      (js_bind (js_attempt (saveUserTags ctx env (email v) (selectedTags v))) (\<lambda>tagged.
         case tagged of
           Inl error \<Rightarrow>
             js_bind (log_error ctx) (\<lambda>u.
               js_return (createErrorResponse 500 ''Failed to save user tags''
                            (ErrorText (error_message error))))
         | Inr tagSaveResults \<Rightarrow>
             js_bind (kitSyncStep ctx env v surveyRowKey) (\<lambda>kitSyncResult.
               js_return (createSuccessResponse (responseData v tagSaveResults kitSyncResult)))))"
    by (intro keeps_bind keeps_attempt keeps_saveUserTags tagged)
  have saved: "keeps_completed
      (js_attempt (js_bind (saveSurveyResponse ctx env v) (\<lambda>surveyResponseResult.
                     surveyRowKey_of env surveyResponseResult)))"
    by (intro keeps_attempt keeps_bind keeps_saveSurveyResponse keeps_surveyRowKey_of)
  show ?thesis
    unfolding persist_def
    by (rule keeps_bind [OF saved]) (simp add: tags err split: sum.splits)
qed

lemma keeps_process: "keeps_completed (process validate ctx env rq)"
  unfolding process_def
  by (auto split: option.splits sum.splits
        intro!: keeps_bind keeps_ensureInitialized keeps_log_error keeps_return keeps_persist)

lemma keeps_surveySubmission: "keeps_completed (surveySubmission validate ctx env rq)"
proof (rule keeps_completedI)
  fix s assume inv: "all_completed s"
  have "keeps_completed
      (js_catch (process validate ctx env rq)
         (\<lambda>error. js_bind (log_error ctx) (\<lambda>u.
            js_return (createErrorResponse 500 ''Internal server error'' NoDetails))))"
    by (intro keeps_catch keeps_process keeps_bind keeps_log_error keeps_return)
  from keeps_completedD [OF this inv] inv
  show "all_completed (snd (surveySubmission validate ctx env rq s))"
    by (simp add: surveySubmission_def)
qed

text \<open>
  Claim C9. The entity built for a submission has \<open>completed = true\<close> whatever the
  caller sent (\<open>completed || true\<close>), and no request makes a stored record's
  \<open>completed\<close> false: if it is true in every stored record before a request, it is
  true in every stored record after it, whether the handler returns or throws.
\<close>

theorem stored_completed_always_true:
  "r_completed (response_entity_of env v rowKey)
   \<and> ((\<forall>r\<in>set (surveyResponsesTable s). r_completed r) \<longrightarrow>
        (\<forall>r\<in>set (surveyResponsesTable (snd (surveySubmission validate ctx env rq s))). r_completed r))"
  using keeps_completedD [OF keeps_surveySubmission, of s validate ctx env rq]
  by (simp add: response_entity_completed all_completed_def list_all_iff)


section \<open>Concrete runs\<close>

text \<open>
  Claim C1 does not hold on the handler of survey-submission.js. The Kit request times
  out, storage works. Under the context of \<open>app.http\<close> the \<open>catch\<close> of
  \<open>syncTagsToKit\<close> calls \<open>context.log.error\<close>, which throws; the \<open>catch\<close> blocks
  on the way out log the same way, and the handler's promise rejects: no 200 is
  returned, and the stored record keeps \<open>'pending'\<close>. With a context whose
  \<open>log.error\<close> is callable the response is the 200 with \<open>kitSyncStatus: 'failed'\<close>,
  but the stored record still keeps \<open>'pending'\<close>: the value \<open>createEntity\<close> resolves
  to has no \<open>rowKey\<close>, so the status update addresses a row key that
  \<open>generateId()\<close> has just made up (\<open>id1\<close>, the record being \<open>id0\<close>), the update
  fails with 404 and \<open>updateKitSyncStatus\<close> swallows that failure (see
  \<open>surveyRowKey_made_up\<close>).
\<close>

theorem sync_failure_leaves_pending:
  "fst (surveySubmission accept v4_context timeout_env (post sample_submission) fresh_state)
     = Inl (TypeError ''context.log.error is not a function'')
   \<and> map (\<lambda>r. (r_rowKey r, r_kitSyncStatus r))
        (surveyResponsesTable
           (snd (surveySubmission accept v4_context timeout_env (post sample_submission)
                   fresh_state)))
     = [(''id0'', ''pending'')]
   \<and> fst (surveySubmission accept logging_context timeout_env (post sample_submission) fresh_state)
     = Inr (createSuccessResponse
         \<lparr>rd_email = ''Al@Example.com'', rd_name = ''Al'', rd_tagsProcessed = 6,
          rd_recommendationsCount = 1, rd_hasCustomResponses = True,
          rd_validationPassed = True, rd_databaseStatus = ''success'', rd_totalTags = 6,
          rd_savedTags = 6, rd_failedTags = 0, rd_kitSyncStatus = ''failed'',
          rd_kitSyncMessage = ''Failed to connect to Kit.com API'', rd_kitTagssynced = 0\<rparr>)
   \<and> filter (\<lambda>c. \<not> is_fetch c)
        (calls (snd (surveySubmission accept logging_context timeout_env (post sample_submission)
                       fresh_state)))
     = [CreateTable SurveyResponses, CreateTable UserTags,
        CreateEntity ''al@example.com'' ''id0'',
        UpsertEntity ''al@example.com'' ''setting_mixed'',
        UpsertEntity ''al@example.com'' ''role_other'',
        UpsertEntity ''al@example.com'' ''pop_adults'',
        UpsertEntity ''al@example.com'' ''interest_art'',
        UpsertEntity ''al@example.com'' ''freq_weekly'',
        UpsertEntity ''al@example.com'' ''mod_cbt'',
        UpdateEntity ''al@example.com'' ''id1'']
   \<and> map (\<lambda>r. (r_rowKey r, r_kitSyncStatus r))
        (surveyResponsesTable
           (snd (surveySubmission accept logging_context timeout_env (post sample_submission)
                   fresh_state)))
     = [(''id0'', ''pending'')]"
  by code_simp

text \<open>
  Claim C2 does not hold on the handler of survey-submission.js under the context of
  \<open>app.http\<close>. With every collaborator working, the record is stored, the tags are
  saved and the Kit call succeeds; the status update then fails with 404 (it addresses
  the made-up row key \<open>id1\<close>), the \<open>catch\<close> of \<open>updateKitSyncStatus\<close> calls
  \<open>context.log.error\<close>, which throws, and so do the two \<open>catch\<close> blocks around it:
  the handler's promise rejects although the record is stored. The same happens when the
  tag upserts fail: the per-tag \<open>catch\<close> throws from its logging call. Where
  \<open>context.log.error\<close> is callable the response is the 200
  (\<open>stored_submission_is_success\<close>).
\<close>

theorem stored_submission_rejects:
  "fst (surveySubmission accept v4_context sample_env (post sample_submission) fresh_state)
     = Inl (TypeError ''context.log.error is not a function'')
   \<and> map response_key
        (surveyResponsesTable
           (snd (surveySubmission accept v4_context sample_env (post sample_submission)
                   fresh_state)))
     = [(''al@example.com'', ''id0'')]
   \<and> last (calls (snd (surveySubmission accept v4_context sample_env (post sample_submission)
                          fresh_state)))
     = UpdateEntity ''al@example.com'' ''id1''
   \<and> fst (surveySubmission accept v4_context tag_outage_env (post sample_submission) fresh_state)
     = Inl (TypeError ''context.log.error is not a function'')
   \<and> map response_key
        (surveyResponsesTable
           (snd (surveySubmission accept v4_context tag_outage_env (post sample_submission)
                   fresh_state)))
     = [(''al@example.com'', ''id0'')]"
  by code_simp

text \<open>
  Claim C5 does not hold on the handler of survey-submission.js under the context of
  \<open>app.http\<close>. A tag outside the catalog is found (\<open>invalidTags\<close> is not empty) and
  no entity is written, but the 400 is not returned: \<open>context.log.error\<close>, called
  before the \<open>return\<close>, throws, the outermost \<open>catch\<close> logs the same way, and the
  handler's promise rejects. Only the two \<open>createTable\<close> calls of the initialisation
  reach the storage. Where \<open>context.log.error\<close> is callable the response is the 400
  that lists the invalid tags (\<open>surveySubmission_invalid_tags\<close>); no entity is written
  in either case (\<open>invalid_tags_no_writes\<close>).
\<close>

theorem invalid_tag_rejects_without_response:
  "invalidTags (selectedTags off_catalog_submission) = [''vip_customer'']
   \<and> fst (surveySubmission accept v4_context sample_env (post off_catalog_submission) fresh_state)
     = Inl (TypeError ''context.log.error is not a function'')
   \<and> calls (snd (surveySubmission accept v4_context sample_env (post off_catalog_submission)
                    fresh_state))
     = [CreateTable SurveyResponses, CreateTable UserTags]"
  by code_simp

text \<open>
  Claim C10 does not hold on the handler of survey-submission.js under the context of
  \<open>app.http\<close>: every \<open>catch\<close> block of the handler, the outermost one included,
  starts with \<open>context.log.error(...)\<close>, which throws there, so an exception leaves
  the handler instead of a response. Three POST requests: a body that is not JSON, a
  body that fails validation, and an accepted body in a process without the storage
  connection string. Where \<open>context.log.error\<close> is callable, every POST is answered
  with status 200, 400 or 500 (\<open>surveySubmission_responds\<close>).
\<close>

theorem surveySubmission_rejects:
  "fst (surveySubmission accept v4_context sample_env unparseable fresh_state)
     = Inl (TypeError ''context.log.error is not a function'')
   \<and> fst (surveySubmission reject_both v4_context sample_env (post ()) fresh_state)
     = Inl (TypeError ''context.log.error is not a function'')
   \<and> fst (surveySubmission accept v4_context unconfigured_env (post sample_submission) fresh_state)
     = Inl (TypeError ''context.log.error is not a function'')"
  by code_simp

text \<open>
  Witness for C9: the caller sends \<open>completed: false\<close>; the record stored from a fresh
  process has \<open>completed = true\<close>.
\<close>

theorem stored_completed_always_true_witness:
  "completed sample_submission = Some False
   \<and> map r_completed (surveyResponsesTable
        (snd (surveySubmission accept v4_context sample_env (post sample_submission) fresh_state)))
      = [True]"
proof -
  let ?tbl = "surveyResponsesTable
        (snd (surveySubmission accept v4_context sample_env (post sample_submission) fresh_state))"
  have h: "\<forall>r\<in>set (surveyResponsesTable fresh_state). r_completed r"
    by (simp add: fresh_state_def)
  have c: "completed sample_submission = Some False"
    by (simp add: sample_submission_def)
  have n: "map r_rowKey ?tbl = [''id0'']"
    by code_simp
  have "\<forall>r\<in>set ?tbl. r_completed r"
    using stored_completed_always_true
            [of sample_env sample_submission "''id0''" fresh_state accept v4_context
               "post sample_submission"] h
    by blast
  with n have "map r_completed ?tbl = [True]"
    by (cases ?tbl) auto
  with c show ?thesis by simp
qed

text \<open>
  Claim C8 does not hold on the code: \<open>sanitizeInput\<close> is defined and exported by
  the validation utilities and imported by the second handler, and neither handler calls
  it. A name with markup is stored as it was sent, while its sanitized form differs.
\<close>

theorem stored_name_not_sanitized:
  "map r_name (surveyResponsesTable
      (snd (surveySubmission accept v4_context sample_env (post markup_submission) fresh_state)))
     = [''<b>Al</b>'']
   \<and> sanitizeInput ''<b>Al</b>'' = ''bAl/b''"
  by code_simp

text \<open>
  Claim C3 does not hold on the Kit service module: its \<open>syncTagsToKit\<close> maps every
  tag it is given into the payload, the "other" sentinel tags included, where the
  \<open>syncTagsToKit\<close> of survey-submission.js filters them out (second conjunct, and
  \<open>syncTagsToKit_payload_no_other\<close> in general).
\<close>

theorem kitApi_syncTagsToKit_sends_other:
  "map payload_tags (snd (kitApi_syncTagsToKit sample_env sample_kit_data))
     = [[''mod_cbt'', ''role_other'']]
   \<and> map payload_tags
        (snd (syncTagsToKit v4_context sample_env ''Al@Example.com'' [''mod_cbt'', ''role_other'']))
     = [[''mod_cbt'']]"
  by code_simp

text \<open>
  Claim C6 does not hold on the Kit service module: without the credential its
  \<open>syncTagsToKit\<close> throws instead of returning \<open>'skipped'\<close>, and a tag list that
  holds only sentinel tags, or no tag at all, is sent. The \<open>syncTagsToKit\<close> of
  survey-submission.js sends no request in these cases (\<open>syncTagsToKit_no_request\<close>)
  and returns \<open>'skipped'\<close> when no tag is left; without the credential it returns
  \<open>'skipped'\<close> where \<open>context.log.warn\<close> is callable (\<open>syncTagsToKit_skipped\<close>) and
  throws from that call where it is not (\<open>syncTagsToKit_warn_throws\<close>).
\<close>

theorem kitApi_syncTagsToKit_never_skips:
  "fst (kitApi_syncTagsToKit (sample_env\<lparr>KIT_API_KEY := None\<rparr>) sample_kit_data)
     = Inl (Error ''KIT_API_KEY environment variable is not set'')
   \<and> map payload_tags
        (snd (kitApi_syncTagsToKit sample_env
                \<lparr>d_email = Some ''Al@Example.com'', d_tags = Some [''role_other'']\<rparr>))
     = [[''role_other'']]
   \<and> map payload_tags
        (snd (kitApi_syncTagsToKit sample_env
                \<lparr>d_email = Some ''Al@Example.com'', d_tags = Some []\<rparr>))
     = [[]]"
  by code_simp

text \<open>
  Claim C7 does not hold on the second handler: it validates with Joi's default options
  and reports \<open>error.details[0]\<close> only, so of two violated fields the response names
  one; nothing is logged on that path, so the context does not matter. The handler of
  survey-submission.js maps every detail to an entry and returns them where
  \<open>context.log.error\<close> is callable (second conjunct, and
  \<open>surveySubmission_validation_failed\<close> in general); under the context of
  \<open>app.http\<close> that logging call throws before the \<open>return\<close> (third conjunct).
\<close>

theorem svc_surveySubmission_first_violation_only:
  "fst (svc_surveySubmission reject_both v4_context svc_sample_env (post ()) svc_fresh_state)
     = Inr \<lparr>svc_status = 400, svc_body = SvcValidationFailed ''name is required'' ''name''\<rparr>
   \<and> fst (surveySubmission reject_both logging_context sample_env (post ()) fresh_state)
     = Inr (createErrorResponse 400 ''Validation failed''
         (ValidationErrors
            [\<lparr>ve_field = ''name'', ve_message = ''name is required'', ve_value = None\<rparr>,
             \<lparr>ve_field = ''email'', ve_message = ''email is required'', ve_value = None\<rparr>]))
   \<and> fst (surveySubmission reject_both v4_context sample_env (post ()) fresh_state)
     = Inl (TypeError ''context.log.error is not a function'')"
  by code_simp


end
